theory Spec2Isabelle
  imports
    Main
    "HOL-Library.Word"
    "HOL-Library.AList"
    "HOL-Library.Sublist"
    "HOL-Library.Log_Nat"
begin

unbundle bit_operations_syntax

section \<open>JavaScript values\<close>

text \<open>
  The script is one JavaScript function, \<open>operator(proxies)\<close>, which reads the option bag
  \<open>$arguments\<close>. A JavaScript string is a sequence of UTF-16 code units; \<open>length\<close>,
  \<open>charCodeAt\<close>, \<open>slice\<close> and the regular expressions of the script all count code units,
  so a string is modelled as the list of its code units (numbers below \<open>65536\<close>; the
  one property that needs the bound assumes it). \<open>asc\<close> writes an ASCII literal. The
  model follows the language standard: it has no limit of its own on the length of a
  string, where an engine raises RangeError beyond the limit it has.
\<close>

type_synonym jstr = "nat list"

definition asc :: "string \<Rightarrow> jstr" where
  "asc s = map of_char s"

text \<open>
  Numbers of the script are integers, \<open>NaN\<close> (what \<open>parseInt\<close> gives for a text with no
  digits) or an infinity. A JavaScript number is a double: \<open>dbl\<close> rounds an integer to the
  nearest double (ties to even), which changes nothing up to \<open>2^53\<close>.
\<close>

datatype num = NaN | Fin int | PosInf | NegInf

definition dbl :: "int \<Rightarrow> int" where
  "dbl x =
     (let a = \<bar>x\<bar> in
      if a \<le> 2 ^ 53 then x
      else
        let q = 2 ^ (nat (bitlen a) - 53);
            lo = a div q;
            r = a mod q;
            m = (if q < 2 * r \<or> (2 * r = q \<and> odd lo) then lo + 1 else lo)
        in sgn x * (m * q))"

definition to_num :: "int \<Rightarrow> num" where
  "to_num x =
     (let y = dbl x in
      if 2 ^ 1024 \<le> y then PosInf else if y \<le> - (2 ^ 1024) then NegInf else Fin y)"

text \<open>
  The values a node list is made of: what JSON can hold, and \<open>undefined\<close> for a field
  that is absent. An object is the list of its own properties in property order. Numbers
  inside the data are integers (a port); fractions are outside the model.
\<close>

datatype jsval =
    Undefined
  | Null
  | Bool bool
  | Num int
  | Str jstr
  | Arr "jsval list"
  | Obj "(jstr \<times> jsval) list"

subsection \<open>Number to text\<close>

function toString10 :: "nat \<Rightarrow> jstr" where
  "toString10 n = (if n < 10 then [48 + n] else toString10 (n div 10) @ [48 + n mod 10])"
  by pat_completeness auto
termination
  by (relation "measure id") auto

declare toString10.simps [simp del]

definition int_toString :: "int \<Rightarrow> jstr" where
  "int_toString i = (if i < 0 then 45 # toString10 (nat (- i)) else toString10 (nat i))"

definition hex_digit :: "nat \<Rightarrow> nat" where
  "hex_digit d = (if d < 10 then 48 + d else 87 + d)"

function toString16 :: "nat \<Rightarrow> jstr" where
  "toString16 n =
     (if n < 16 then [hex_digit n] else toString16 (n div 16) @ [hex_digit (n mod 16)])"
  by pat_completeness auto
termination
  by (relation "measure id") auto

declare toString16.simps [simp del]

subsection \<open>\<open>String(v)\<close> and \<open>safeStr\<close>\<close>

fun join :: "jstr \<Rightarrow> jstr list \<Rightarrow> jstr" where
  "join sep [] = []"
| "join sep [x] = x"
| "join sep (x # y # ys) = x @ sep @ join sep (y # ys)"

text \<open>
  \<open>String(v)\<close>, which a template literal applies too. An integer prints in decimal (the
  exponent form of magnitudes from \<open>10^21\<close> on is outside the model); an array prints its
  elements joined by commas, \<open>null\<close> and \<open>undefined\<close> as nothing; a plain object prints as
  \<open>[object Object]\<close>.
\<close>

fun toString :: "jsval \<Rightarrow> jstr" where
  "toString Undefined = asc ''undefined''"
| "toString Null = asc ''null''"
| "toString (Bool b) = (if b then asc ''true'' else asc ''false'')"
| "toString (Num i) = int_toString i"
| "toString (Str s) = s"
| "toString (Arr xs) =
     join (asc '','')
       (map (\<lambda>v. case v of Undefined \<Rightarrow> [] | Null \<Rightarrow> [] | _ \<Rightarrow> toString v) xs)"
| "toString (Obj fs) = asc ''[object Object]''"

text \<open>\<open>const safeStr = (s) => s == null ? '' : String(s);\<close>\<close>

definition safeStr :: "jsval \<Rightarrow> jstr" where
  "safeStr s = (case s of Undefined \<Rightarrow> [] | Null \<Rightarrow> [] | _ \<Rightarrow> toString s)"

section \<open>The conflict hash\<close>

text \<open>
  \<^verbatim>\<open>
  const generateHash = (str, length = 4) => {
    let hash = 5381;
    const text = safeStr(str);
    for (let i = 0; i < text.length; i++) {
      hash = ((hash << 5) + hash) + text.charCodeAt(i);
    }
    return (hash >>> 0).toString(16).slice(-Math.max(1, length));
  };
  \<close>
  \<open>hash << 5\<close> takes \<open>hash\<close> modulo \<open>2^32\<close>, shifts and reads the result as a signed 32-bit
  integer; the two additions are additions of doubles, so \<open>hash\<close> itself is not reduced.
  \<open>hash >>> 0\<close> is \<open>hash\<close> modulo \<open>2^32\<close>. The one call passes \<open>hashLen\<close>, which is
  never \<open>undefined\<close>, so the default of \<open>length\<close> plays no part.
\<close>

definition shl5 :: "int \<Rightarrow> int" where
  "shl5 h = sint (push_bit 5 (word_of_int h :: 32 word))"

fun hash_loop :: "int \<Rightarrow> jstr \<Rightarrow> int" where
  "hash_loop hash [] = hash"
| "hash_loop hash (c # text) = hash_loop (dbl (dbl (shl5 hash + hash) + int c)) text"

definition ushr0 :: "int \<Rightarrow> nat" where
  "ushr0 h = unat (word_of_int h :: 32 word)"

text \<open>\<open>Math.max(k, x)\<close> for an integer \<open>k\<close>.\<close>

definition math_max :: "int \<Rightarrow> num \<Rightarrow> num" where
  "math_max k x =
     (case x of NaN \<Rightarrow> NaN | Fin i \<Rightarrow> Fin (max k i) | PosInf \<Rightarrow> PosInf | NegInf \<Rightarrow> Fin k)"

text \<open>\<open>s.slice(-x)\<close>: the start counts from the end; \<open>NaN\<close> is read as 0.\<close>

definition slice_neg :: "num \<Rightarrow> jstr \<Rightarrow> jstr" where
  "slice_neg x s =
     (case x of
        NaN \<Rightarrow> s
      | Fin i \<Rightarrow> (if 0 < i then drop (length s - nat i) s else drop (nat (- i)) s)
      | PosInf \<Rightarrow> s
      | NegInf \<Rightarrow> [])"

definition generateHash :: "jsval \<Rightarrow> num \<Rightarrow> jstr" where
  "generateHash str len =
     slice_neg (math_max 1 len) (toString16 (ushr0 (hash_loop 5381 (safeStr str))))"





section \<open>Strings\<close>

text \<open>
  White space as \<open>\s\<close> and \<open>trim\<close> see it: the WhiteSpace and LineTerminator code points.
\<close>

definition is_space :: "nat \<Rightarrow> bool" where
  "is_space c =
     (c \<in> {9, 10, 11, 12, 13, 32, 160, 5760, 8232, 8233, 8239, 8287, 12288, 65279}
      \<or> (8192 \<le> c \<and> c \<le> 8202))"

definition trim :: "jstr \<Rightarrow> jstr" where
  "trim s = rev (dropWhile is_space (rev (dropWhile is_space s)))"

text \<open>\<open>s.split(sep)\<close> for a separator that is one code unit out of a set.\<close>

fun split_on :: "(nat \<Rightarrow> bool) \<Rightarrow> jstr \<Rightarrow> jstr list" where
  "split_on p [] = [[]]"
| "split_on p (c # cs) =
     (if p c then [] # split_on p cs
      else (case split_on p cs of [] \<Rightarrow> [[c]] | x # xs \<Rightarrow> (c # x) # xs))"

text \<open>\<open>name.includes(k)\<close>\<close>

fun includes_str :: "jstr \<Rightarrow> jstr \<Rightarrow> bool" where
  "includes_str [] k = (k = [])"
| "includes_str (c # cs) k = (prefix k (c # cs) \<or> includes_str cs k)"

text \<open>\<open>s.padStart(n, c)\<close> for a one-unit filler; \<open>NaN\<close> is the length 0.\<close>

definition padStart :: "num \<Rightarrow> nat \<Rightarrow> jstr \<Rightarrow> jstr" where
  "padStart n c s =
     (case n of
        Fin i \<Rightarrow> replicate (nat i - length s) c @ s
      | PosInf \<Rightarrow> replicate (2 ^ 53 - 1 - length s) c @ s
      | _ \<Rightarrow> s)"

text \<open>\<open>s.slice(0, e)\<close>: a negative end counts from the end of the string.\<close>

definition slice0 :: "num \<Rightarrow> jstr \<Rightarrow> jstr" where
  "slice0 e s =
     (case e of
        NaN \<Rightarrow> []
      | Fin i \<Rightarrow> (if i < 0 then take (length s - nat (- i)) s else take (nat i) s)
      | PosInf \<Rightarrow> s
      | NegInf \<Rightarrow> [])"

subsection \<open>Case conversion and the other services of the runtime\<close>

text \<open>
  \<open>toUpperCase\<close> and \<open>toLowerCase\<close> change exactly the letters \<open>a-z\<close> and \<open>A-Z\<close> of a
  string of ASCII characters. On other strings they follow the Unicode tables of the
  JavaScript runtime, which are no part of the repository: like Unicode normalisation,
  the locale's collation and the regular expressions compiled from option values, they
  are services of the runtime, collected in a record the model takes as a parameter.
  \<open>regexp\<close> is \<open>new RegExp(src, 'i')\<close> and gives \<open>None\<close> where that raises SyntaxError;
  \<open>rx_test\<close> is \<open>r.test(s)\<close>; \<open>rx_remove\<close> is \<open>s.replace(r, '')\<close>.
\<close>

record 'r runtime =
  upper_unicode :: "jstr \<Rightarrow> jstr"
  lower_unicode :: "jstr \<Rightarrow> jstr"
  normalize_nfkc :: "jstr \<Rightarrow> jstr"
  localeCompare :: "jstr \<Rightarrow> jstr \<Rightarrow> int"
  regexp :: "jstr \<Rightarrow> 'r option"
  rx_test :: "'r \<Rightarrow> jstr \<Rightarrow> bool"
  rx_remove :: "'r \<Rightarrow> jstr \<Rightarrow> jstr"

definition is_ascii :: "jstr \<Rightarrow> bool" where
  "is_ascii s = list_all (\<lambda>c. c < 128) s"

definition upper_char :: "nat \<Rightarrow> nat" where
  "upper_char c = (if 97 \<le> c \<and> c \<le> 122 then c - 32 else c)"

definition lower_char :: "nat \<Rightarrow> nat" where
  "lower_char c = (if 65 \<le> c \<and> c \<le> 90 then c + 32 else c)"

definition toUpperCase :: "'r runtime \<Rightarrow> jstr \<Rightarrow> jstr" where
  "toUpperCase rt s = (if is_ascii s then map upper_char s else upper_unicode rt s)"

definition toLowerCase :: "'r runtime \<Rightarrow> jstr \<Rightarrow> jstr" where
  "toLowerCase rt s = (if is_ascii s then map lower_char s else lower_unicode rt s)"

section \<open>\<open>decodeURI\<close>\<close>

text \<open>
  The script decodes several option values with \<open>decodeURI\<close>, which raises URIError on
  a malformed escape. The model follows the Decode operation of ECMAScript: \<open>%XX\<close> is
  an octet; an octet below 128 is its character unless that is one of the reserved
  \<open>;/?:@&=+$,#\<close> (then the escape stays); a lead octet announces \<open>n\<close> octets that must
  be the UTF-8 form of a code point, which is appended in UTF-16.
\<close>

datatype error = URIError | SyntaxError

definition bind :: "error + 'a \<Rightarrow> ('a \<Rightarrow> error + 'b) \<Rightarrow> error + 'b" where
  "bind m f = (case m of Inl e \<Rightarrow> Inl e | Inr x \<Rightarrow> f x)"

definition hex_val :: "nat \<Rightarrow> nat option" where
  "hex_val c =
     (if 48 \<le> c \<and> c \<le> 57 then Some (c - 48)
      else if 65 \<le> c \<and> c \<le> 70 then Some (c - 55)
      else if 97 \<le> c \<and> c \<le> 102 then Some (c - 87)
      else None)"

text \<open>The octet written \<open>%XX\<close> at index \<open>k\<close>; \<open>None\<close> wherever Decode throws.\<close>

definition octet_at :: "jstr \<Rightarrow> nat \<Rightarrow> nat option" where
  "octet_at s k =
     (if length s < k + 3 then None
      else if s ! k \<noteq> 37 then None
      else (case (hex_val (s ! (k + 1)), hex_val (s ! (k + 2))) of
              (Some a, Some b) \<Rightarrow> Some (16 * a + b)
            | _ \<Rightarrow> None))"

definition leading_ones :: "nat \<Rightarrow> nat" where
  "leading_ones b =
     (if b < 128 then 0 else if b < 192 then 1 else if b < 224 then 2
      else if b < 240 then 3 else if b < 248 then 4 else 5)"

fun cont_octets :: "jstr \<Rightarrow> nat \<Rightarrow> nat \<Rightarrow> nat list option" where
  "cont_octets s k 0 = Some []"
| "cont_octets s k (Suc n) =
     (case octet_at s k of
        None \<Rightarrow> None
      | Some b \<Rightarrow> (case cont_octets s (k + 3) n of None \<Rightarrow> None | Some bs \<Rightarrow> Some (b # bs)))"

text \<open>
  The code point of a lead octet and its continuation octets; \<open>None\<close> unless they are
  well-formed UTF-8 (continuations \<open>10xxxxxx\<close>, shortest form, no surrogate, at most
  \<open>U+10FFFF\<close>).
\<close>

definition utf8_value :: "nat \<Rightarrow> nat list \<Rightarrow> nat option" where
  "utf8_value b bs =
     (let n = length bs + 1;
          v = foldl (\<lambda>a c. a * 64 + (c - 128)) (b mod 2 ^ (7 - n)) bs
      in if \<not> list_all (\<lambda>c. 128 \<le> c \<and> c < 192) bs then None
         else if n = 2 \<and> 128 \<le> v then Some v
         else if n = 3 \<and> 2048 \<le> v \<and> \<not> (55296 \<le> v \<and> v \<le> 57343) then Some v
         else if n = 4 \<and> 65536 \<le> v \<and> v \<le> 1114111 then Some v
         else None)"

definition utf16 :: "nat \<Rightarrow> jstr" where
  "utf16 v =
     (if v < 65536 then [v]
      else [55296 + (v - 65536) div 1024, 56320 + (v - 65536) mod 1024])"

definition reservedURISet :: jstr where
  "reservedURISet = asc '';/?:@&=+$,#''"

text \<open>
  One pass of the loop body at index \<open>k < length s\<close>: the text it appends, and how far
  it moves \<open>k\<close> before the loop's own increment.
\<close>

definition decode_step :: "jstr \<Rightarrow> nat \<Rightarrow> error + (jstr \<times> nat)" where
  "decode_step s k =
     (if s ! k \<noteq> 37 then Inr ([s ! k], 0)
      else
        (case octet_at s k of
           None \<Rightarrow> Inl URIError
         | Some b \<Rightarrow>
             (let n = leading_ones b in
              if n = 0 then
                Inr (if b \<in> set reservedURISet then take 3 (drop k s) else [b], 2)
              else if n = 1 \<or> 4 < n then Inl URIError
              else
                (case cont_octets s (k + 3) (n - 1) of
                   None \<Rightarrow> Inl URIError
                 | Some bs \<Rightarrow>
                     (case utf8_value b bs of
                        None \<Rightarrow> Inl URIError
                      | Some v \<Rightarrow> Inr (utf16 v, 3 * n - 1))))))"

function decode_from :: "jstr \<Rightarrow> nat \<Rightarrow> jstr \<Rightarrow> error + jstr" where
  "decode_from s k R =
     (if k < length s then
        (case decode_step s k of
           Inl e \<Rightarrow> Inl e
         | Inr (S, d) \<Rightarrow> decode_from s (k + d + 1) (R @ S))
      else Inr R)"
  by pat_completeness auto
termination
  by (relation "measure (\<lambda>(s, k, R). length s - k)") auto

declare decode_from.simps [simp del]

definition decodeURI :: "jstr \<Rightarrow> error + jstr" where
  "decodeURI s = decode_from s 0 []"

section \<open>Reading the options\<close>

text \<open>
  \<open>$arguments\<close> maps option names to strings; a name that is absent reads \<open>undefined\<close>.
  A value is truthy when it is present and not empty.
\<close>

type_synonym args = "string \<Rightarrow> jstr option"

definition truthy :: "jstr option \<Rightarrow> bool" where
  "truthy v = (case v of None \<Rightarrow> False | Some s \<Rightarrow> s \<noteq> [])"

text \<open>\<open>(args.x || dflt).toString().toLowerCase()\<close>\<close>

definition lower_or :: "'r runtime \<Rightarrow> jstr option \<Rightarrow> jstr \<Rightarrow> jstr" where
  "lower_or rt v dflt = toLowerCase rt (if truthy v then the v else dflt)"

text \<open>
  \<^verbatim>\<open>
  const parseBool = (v, defaultVal) => {
    if (v === undefined) return defaultVal;
    const s = String(v).toLowerCase();
    return ["1", "true", "on", "yes"].includes(s) ? true :
           ["0", "false", "off", "no"].includes(s) ? false : defaultVal;
  };
  \<close>
\<close>

definition parseBool :: "'r runtime \<Rightarrow> jstr option \<Rightarrow> bool \<Rightarrow> bool" where
  "parseBool rt v defaultVal =
     (case v of
        None \<Rightarrow> defaultVal
      | Some x \<Rightarrow>
          (let s = toLowerCase rt x in
           if s \<in> set [asc ''1'', asc ''true'', asc ''on'', asc ''yes''] then True
           else if s \<in> set [asc ''0'', asc ''false'', asc ''off'', asc ''no''] then False
           else defaultVal))"

text \<open>
  \<^verbatim>\<open>
  const parseList = (v) => {
    if (!v) return [];
    return decodeURI(String(v)).split(/[+,]/).map(x => x.trim()).filter(Boolean);
  };
  \<close>
\<close>

definition parseList :: "jstr option \<Rightarrow> error + jstr list" where
  "parseList v =
     (if \<not> truthy v then Inr []
      else bind (decodeURI (the v))
             (\<lambda>d. Inr (filter (\<lambda>x. x \<noteq> []) (map trim (split_on (\<lambda>c. c = 43 \<or> c = 44) d)))))"

text \<open>
  \<^verbatim>\<open>
  const toRegex = (v) => {
    if (!v) return null;
    try { return new RegExp(decodeURI(String(v)), 'i'); }
    catch { return null; }
  };
  \<close>
\<close>

definition toRegex :: "'r runtime \<Rightarrow> jstr option \<Rightarrow> 'r option" where
  "toRegex rt v =
     (if \<not> truthy v then None
      else (case decodeURI (the v) of Inl e \<Rightarrow> None | Inr d \<Rightarrow> regexp rt d))"

text \<open>
  \<open>parseInt(s, 10)\<close>: leading white space, a sign, then the longest run of decimal
  digits; \<open>NaN\<close> when there is none.
\<close>

definition is_digit :: "nat \<Rightarrow> bool" where
  "is_digit c = (48 \<le> c \<and> c \<le> 57)"

definition digits_value :: "jstr \<Rightarrow> int" where
  "digits_value ds = foldl (\<lambda>a d. 10 * a + (int d - 48)) 0 ds"

definition parseInt :: "jstr \<Rightarrow> num" where
  "parseInt s =
     (let t = dropWhile is_space s;
          negative = (case t of [] \<Rightarrow> False | c # _ \<Rightarrow> c = 45);
          u = (case t of [] \<Rightarrow> [] | c # r \<Rightarrow> if c = 43 \<or> c = 45 then r else t);
          ds = takeWhile is_digit u
      in if ds = [] then NaN
         else to_num ((if negative then - 1 else 1) * digits_value ds))"

text \<open>\<open>args.x ? parseInt(args.x, 10) : dflt\<close>\<close>

definition int_or :: "jstr option \<Rightarrow> int \<Rightarrow> num" where
  "int_or v dflt = (if truthy v then parseInt (the v) else Fin dflt)"

section \<open>Text clean-up\<close>

text \<open>\<open>s.replace(/[\uD800-\uDBFF][\uDC00-\uDFFF]/g, "")\<close>\<close>

fun removeEmoji :: "jstr \<Rightarrow> jstr" where
  "removeEmoji (a # b # r) =
     (if 55296 \<le> a \<and> a \<le> 56319 \<and> 56320 \<le> b \<and> b \<le> 57343 then removeEmoji r
      else a # removeEmoji (b # r))"
| "removeEmoji r = r"

text \<open>\<open>s.replace(/[\\/:*?"<>|]/g, '-')\<close>\<close>

definition sanitizeChars :: "jstr \<Rightarrow> jstr" where
  "sanitizeChars s =
     map (\<lambda>c. if c \<in> {92, 47, 58, 42, 63, 34, 60, 62, 124} then 45 else c) s"

text \<open>
  \<open>s.replace(/\s{n,}/g, ' ')\<close> for \<open>n = 2\<close> (in \<open>trimSpaces\<close>) and \<open>n = 1\<close> (at the end of
  \<open>cleanRegionFromName\<close>): every maximal run of at least \<open>n\<close> white-space units becomes
  one space.
\<close>

function collapse_runs :: "nat \<Rightarrow> jstr \<Rightarrow> jstr" where
  "collapse_runs n [] = []"
| "collapse_runs n (c # cs) =
     (if is_space c \<and> n \<le> length (takeWhile is_space (c # cs))
      then 32 # collapse_runs n (dropWhile is_space cs)
      else c # collapse_runs n cs)"
  by pat_completeness auto
termination
  by (relation "measure (\<lambda>(n, s). length s)")
     (auto simp: length_dropWhile_le le_imp_less_Suc)

definition trimSpaces :: "jstr \<Rightarrow> jstr" where
  "trimSpaces s = trim (collapse_runs 2 s)"

text \<open>
  \<open>const truncateText = (s, maxLen) =>
     (maxLen && s.length > maxLen) ? s.slice(0, maxLen - 1) + '\<dots>' : s;\<close>
  The ellipsis is the one code unit \<open>U+2026\<close>.
\<close>

definition truncateText :: "jstr \<Rightarrow> num \<Rightarrow> jstr" where
  "truncateText s maxLen =
     (case maxLen of
        NaN \<Rightarrow> s
      | Fin i \<Rightarrow> (if i \<noteq> 0 \<and> i < int (length s) then slice0 (Fin (i - 1)) s @ [8230] else s)
      | PosInf \<Rightarrow> s
      | NegInf \<Rightarrow> [8230])"

definition normalizeUnicode :: "'r runtime \<Rightarrow> jstr \<Rightarrow> jstr" where
  "normalizeUnicode rt s = normalize_nfkc rt s"

text \<open>
  \<^verbatim>\<open>
  const addCjkSpaces = (s) => {
    const CJK = /[\u2E80-\u2EFF\u2F00-\u2FDF\u3040-\u30FF\u3400-\u4DBF\u4E00-\u9FFF\uF900-\uFAFF]/;
    let result = '';
    for (let i = 0; i < s.length; i++) {
      const curr = s[i], next = s[i + 1];
      result += curr;
      if (next) {
        const currIsCjk = CJK.test(curr), nextIsCjk = CJK.test(next);
        const currIsAscii = /[A-Za-z0-9]/.test(curr), nextIsAscii = /[A-Za-z0-9]/.test(next);
        if ((currIsCjk && nextIsAscii) || (currIsAscii && nextIsCjk)) {
          if (result[result.length - 1] !== ' ') result += ' ';
        }
      }
    }
    return result;
  };
  \<close>
\<close>

definition is_cjk :: "nat \<Rightarrow> bool" where
  "is_cjk c =
     ((11904 \<le> c \<and> c \<le> 12031) \<or> (12032 \<le> c \<and> c \<le> 12255) \<or> (12352 \<le> c \<and> c \<le> 12543)
      \<or> (13312 \<le> c \<and> c \<le> 19903) \<or> (19968 \<le> c \<and> c \<le> 40959) \<or> (63744 \<le> c \<and> c \<le> 64255))"

definition is_alnum :: "nat \<Rightarrow> bool" where
  "is_alnum c = ((65 \<le> c \<and> c \<le> 90) \<or> (97 \<le> c \<and> c \<le> 122) \<or> (48 \<le> c \<and> c \<le> 57))"

fun addCjk_loop :: "jstr \<Rightarrow> jstr \<Rightarrow> jstr" where
  "addCjk_loop result [] = result"
| "addCjk_loop result [cur] = result @ [cur]"
| "addCjk_loop result (cur # nxt # rest) =
     (let result1 = result @ [cur];
          result2 =
            (if (is_cjk cur \<and> is_alnum nxt) \<or> (is_alnum cur \<and> is_cjk nxt)
             then (if last result1 \<noteq> 32 then result1 @ [32] else result1)
             else result1)
      in addCjk_loop result2 (nxt # rest))"

definition addCjkSpaces :: "jstr \<Rightarrow> jstr" where
  "addCjkSpaces s = addCjk_loop [] s"

section \<open>Regular expressions of the region table\<close>

text \<open>
  The built-in region patterns are written out in the script. They use literal text,
  one optional letter (\<open>HKG?\<close>), one optional white-space character (\<open>\s?\<close>), the word
  boundary \<open>\b\<close> and alternation, under the flag \<open>i\<close>. A pattern is the list of its
  alternatives, an alternative the list of its items.
\<close>

datatype rx_item = Lit jstr | Opt nat | OptSpace | WordB

type_synonym rx = "rx_item list list"

definition cu :: "char \<Rightarrow> nat" where
  "cu c = of_char c"

text \<open>
  Under the flag \<open>i\<close> two code units match when their canonical forms agree. The
  patterns hold ASCII letters, for which that is the upper-case letter, and CJK
  characters, which are their own canonical form and the form of no other character.
\<close>

definition canon :: "nat \<Rightarrow> nat" where
  "canon c = upper_char c"

definition is_word_char :: "nat \<Rightarrow> bool" where
  "is_word_char c = (is_alnum c \<or> c = 95)"

definition word_before :: "nat option \<Rightarrow> bool" where
  "word_before p = (case p of None \<Rightarrow> False | Some c \<Rightarrow> is_word_char c)"

definition word_after :: "jstr \<Rightarrow> bool" where
  "word_after s = (case s of [] \<Rightarrow> False | c # _ \<Rightarrow> is_word_char c)"

text \<open>
  The backtracking matcher: \<open>match_seq items p s\<close> lists what is left of \<open>s\<close> after each
  way \<open>items\<close> can match at its start, in the order the engine tries them (an optional
  item is tried present first). \<open>p\<close> is the code unit before the position, for \<open>\b\<close>.
\<close>

fun match_seq :: "rx_item list \<Rightarrow> nat option \<Rightarrow> jstr \<Rightarrow> jstr list" where
  "match_seq [] p s = [s]"
| "match_seq (Lit [] # r) p s = match_seq r p s"
| "match_seq (Lit (c # t) # r) p s =
     (case s of
        [] \<Rightarrow> []
      | x # xs \<Rightarrow> if canon x = canon c then match_seq (Lit t # r) (Some x) xs else [])"
| "match_seq (Opt c # r) p s =
     (case s of
        [] \<Rightarrow> []
      | x # xs \<Rightarrow> if canon x = canon c then match_seq r (Some x) xs else [])
     @ match_seq r p s"
| "match_seq (OptSpace # r) p s =
     (case s of
        [] \<Rightarrow> []
      | x # xs \<Rightarrow> if is_space x then match_seq r (Some x) xs else [])
     @ match_seq r p s"
| "match_seq (WordB # r) p s =
     (if word_before p \<noteq> word_after s then match_seq r p s else [])"

definition match_here :: "rx \<Rightarrow> nat option \<Rightarrow> jstr \<Rightarrow> jstr list" where
  "match_here r p s = concat (map (\<lambda>alt. match_seq alt p s) r)"

text \<open>\<open>r.test(s)\<close>: some start position matches.\<close>

fun rx_search :: "rx \<Rightarrow> nat option \<Rightarrow> jstr \<Rightarrow> bool" where
  "rx_search r p [] = (match_here r p [] \<noteq> [])"
| "rx_search r p (x # xs) = (match_here r p (x # xs) \<noteq> [] \<or> rx_search r (Some x) xs)"

text \<open>\<open>s.replace(r, '')\<close>: the first match, at the leftmost position that has one, is cut.\<close>

fun rx_cut :: "rx \<Rightarrow> nat option \<Rightarrow> jstr \<Rightarrow> jstr" where
  "rx_cut r p [] = []"
| "rx_cut r p (x # xs) =
     (case match_here r p (x # xs) of
        [] \<Rightarrow> x # rx_cut r (Some x) xs
      | rest # _ \<Rightarrow> rest)"

text \<open>
  A region rule. Its pattern is one of the table's or one the runtime compiled from
  the option \<open>regionMap\<close>.
\<close>

datatype 'r pattern = BuiltIn rx | User 'r

record 'r region =
  key :: "'r pattern"
  zh :: jstr
  en :: jstr
  flag :: jstr

definition key_test :: "'r runtime \<Rightarrow> 'r pattern \<Rightarrow> jstr \<Rightarrow> bool" where
  "key_test rt k n = (case k of BuiltIn r \<Rightarrow> rx_search r None n | User u \<Rightarrow> rx_test rt u n)"

definition key_remove :: "'r runtime \<Rightarrow> 'r pattern \<Rightarrow> jstr \<Rightarrow> jstr" where
  "key_remove rt k n = (case k of BuiltIn r \<Rightarrow> rx_cut r None n | User u \<Rightarrow> rx_remove rt u n)"

definition builtInRegions :: "'r region list" where
  \<open>builtInRegions =
     [
      \<comment> \<open>/Hong\s?Kong|\bHKG?\b|\u9999\u6E2F/i\<close>
      \<lparr>key = BuiltIn
          [[Lit (asc ''Hong''), OptSpace, Lit (asc ''Kong'')],
           [WordB, Lit (asc ''HK''), Opt (cu CHR ''G''), WordB],
           [Lit [39321, 28207]]],
       zh = [39321, 28207], en = asc ''Hong Kong'',
       flag = [55356, 56813, 55356, 56816]\<rparr>,
      \<comment> \<open>/Singapore|\bSGP?\b|\u65B0\u52A0\u5761|\u72EE\u57CE/i\<close>
      \<lparr>key = BuiltIn
          [[Lit (asc ''Singapore'')],
           [WordB, Lit (asc ''SG''), Opt (cu CHR ''P''), WordB],
           [Lit [26032, 21152, 22369]],
           [Lit [29422, 22478]]],
       zh = [26032, 21152, 22369], en = asc ''Singapore'',
       flag = [55356, 56824, 55356, 56812]\<rparr>,
      \<comment> \<open>/Japan|\bJPN?\b|\u65E5\u672C|Tokyo|\u4E1C\u4EAC|\u5927\u962A|Osaka/i\<close>
      \<lparr>key = BuiltIn
          [[Lit (asc ''Japan'')],
           [WordB, Lit (asc ''JP''), Opt (cu CHR ''N''), WordB],
           [Lit [26085, 26412]],
           [Lit (asc ''Tokyo'')],
           [Lit [19996, 20140]],
           [Lit [22823, 38442]],
           [Lit (asc ''Osaka'')]],
       zh = [26085, 26412], en = asc ''Japan'',
       flag = [55356, 56815, 55356, 56821]\<rparr>,
      \<comment> \<open>/Korea|\bKOR?\b|\u97E9\u56FD|Seoul|\u9996\u5C14/i\<close>
      \<lparr>key = BuiltIn
          [[Lit (asc ''Korea'')],
           [WordB, Lit (asc ''KO''), Opt (cu CHR ''R''), WordB],
           [Lit [38889, 22269]],
           [Lit (asc ''Seoul'')],
           [Lit [39318, 23572]]],
       zh = [38889, 22269], en = asc ''Korea'',
       flag = [55356, 56816, 55356, 56823]\<rparr>,
      \<comment> \<open>/Taiwan|\bTWN?\b|\u53F0\u6E7E|Taipei|\u53F0\u5317/i\<close>
      \<lparr>key = BuiltIn
          [[Lit (asc ''Taiwan'')],
           [WordB, Lit (asc ''TW''), Opt (cu CHR ''N''), WordB],
           [Lit [21488, 28286]],
           [Lit (asc ''Taipei'')],
           [Lit [21488, 21271]]],
       zh = [21488, 28286], en = asc ''Taiwan'',
       flag = [55356, 56825, 55356, 56828]\<rparr>,
      \<comment> \<open>/\bChina\b|\bCHN?\b|\u4E2D\u56FD|Beijing|\u4E0A\u6D77|\u6DF1\u5733|\u5E7F\u5DDE/i\<close>
      \<lparr>key = BuiltIn
          [[WordB, Lit (asc ''China''), WordB],
           [WordB, Lit (asc ''CH''), Opt (cu CHR ''N''), WordB],
           [Lit [20013, 22269]],
           [Lit (asc ''Beijing'')],
           [Lit [19978, 28023]],
           [Lit [28145, 22323]],
           [Lit [24191, 24030]]],
       zh = [20013, 22269], en = asc ''China'',
       flag = [55356, 56808, 55356, 56819]\<rparr>,
      \<comment> \<open>/Macao|\bMAC\b|\bMO\b|\u6FB3\u95E8/i\<close>
      \<lparr>key = BuiltIn
          [[Lit (asc ''Macao'')],
           [WordB, Lit (asc ''MAC''), WordB],
           [WordB, Lit (asc ''MO''), WordB],
           [Lit [28595, 38376]]],
       zh = [28595, 38376], en = asc ''Macao'',
       flag = [55356, 56818, 55356, 56820]\<rparr>,
      \<comment> \<open>/Malaysia|\bMYS?\b|\u9A6C\u6765\u897F\u4E9A|Kuala\s?Lumpur/i\<close>
      \<lparr>key = BuiltIn
          [[Lit (asc ''Malaysia'')],
           [WordB, Lit (asc ''MY''), Opt (cu CHR ''S''), WordB],
           [Lit [39532, 26469, 35199, 20122]],
           [Lit (asc ''Kuala''), OptSpace, Lit (asc ''Lumpur'')]],
       zh = [39532, 26469, 35199, 20122], en = asc ''Malaysia'',
       flag = [55356, 56818, 55356, 56830]\<rparr>,
      \<comment> \<open>/Thailand|\bTHA?\b|\u6CF0\u56FD|Bangkok|\u66FC\u8C37/i\<close>
      \<lparr>key = BuiltIn
          [[Lit (asc ''Thailand'')],
           [WordB, Lit (asc ''TH''), Opt (cu CHR ''A''), WordB],
           [Lit [27888, 22269]],
           [Lit (asc ''Bangkok'')],
           [Lit [26364, 35895]]],
       zh = [27888, 22269], en = asc ''Thailand'',
       flag = [55356, 56825, 55356, 56813]\<rparr>,
      \<comment> \<open>/Vietnam|\bVNM?\b|\u8D8A\u5357|Ho\s?Chi\s?Minh/i\<close>
      \<lparr>key = BuiltIn
          [[Lit (asc ''Vietnam'')],
           [WordB, Lit (asc ''VN''), Opt (cu CHR ''M''), WordB],
           [Lit [36234, 21335]],
           [Lit (asc ''Ho''), OptSpace, Lit (asc ''Chi''), OptSpace, Lit (asc ''Minh'')]],
       zh = [36234, 21335], en = asc ''Vietnam'',
       flag = [55356, 56827, 55356, 56819]\<rparr>,
      \<comment> \<open>/Philippines|\bPHL?\b|\u83F2\u5F8B\u5BBE|Manila/i\<close>
      \<lparr>key = BuiltIn
          [[Lit (asc ''Philippines'')],
           [WordB, Lit (asc ''PH''), Opt (cu CHR ''L''), WordB],
           [Lit [33778, 24459, 23486]],
           [Lit (asc ''Manila'')]],
       zh = [33778, 24459, 23486], en = asc ''Philippines'',
       flag = [55356, 56821, 55356, 56813]\<rparr>,
      \<comment> \<open>/Indonesia|\bIDN?\b|\u5370\u5C3C|\u5370\u5EA6\u5C3C\u897F\u4E9A|Jakarta/i\<close>
      \<lparr>key = BuiltIn
          [[Lit (asc ''Indonesia'')],
           [WordB, Lit (asc ''ID''), Opt (cu CHR ''N''), WordB],
           [Lit [21360, 23612]],
           [Lit [21360, 24230, 23612, 35199, 20122]],
           [Lit (asc ''Jakarta'')]],
       zh = [21360, 23612], en = asc ''Indonesia'',
       flag = [55356, 56814, 55356, 56809]\<rparr>,
      \<comment> \<open>/\bIndia\b|\bIND?\b|\u5370\u5EA6|Mumbai|Delhi/i\<close>
      \<lparr>key = BuiltIn
          [[WordB, Lit (asc ''India''), WordB],
           [WordB, Lit (asc ''IN''), Opt (cu CHR ''D''), WordB],
           [Lit [21360, 24230]],
           [Lit (asc ''Mumbai'')],
           [Lit (asc ''Delhi'')]],
       zh = [21360, 24230], en = asc ''India'',
       flag = [55356, 56814, 55356, 56819]\<rparr>,
      \<comment> \<open>/\bTurkey\b|\bTUR?\b|\u571F\u8033\u5176|Istanbul|\u4F0A\u65AF\u5766\u5E03\u5C14/i\<close>
      \<lparr>key = BuiltIn
          [[WordB, Lit (asc ''Turkey''), WordB],
           [WordB, Lit (asc ''TU''), Opt (cu CHR ''R''), WordB],
           [Lit [22303, 32819, 20854]],
           [Lit (asc ''Istanbul'')],
           [Lit [20234, 26031, 22374, 24067, 23572]]],
       zh = [22303, 32819, 20854], en = asc ''Turkey'',
       flag = [55356, 56825, 55356, 56823]\<rparr>,
      \<comment> \<open>/Israel|\bISR?\b|\u4EE5\u8272\u5217|Tel\s?Aviv/i\<close>
      \<lparr>key = BuiltIn
          [[Lit (asc ''Israel'')],
           [WordB, Lit (asc ''IS''), Opt (cu CHR ''R''), WordB],
           [Lit [20197, 33394, 21015]],
           [Lit (asc ''Tel''), OptSpace, Lit (asc ''Aviv'')]],
       zh = [20197, 33394, 21015], en = asc ''Israel'',
       flag = [55356, 56814, 55356, 56817]\<rparr>,
      \<comment> \<open>/\bUAE\b|\bARE\b|\u963F\u8054\u914B|Dubai|\u8FEA\u62DC/i\<close>
      \<lparr>key = BuiltIn
          [[WordB, Lit (asc ''UAE''), WordB],
           [WordB, Lit (asc ''ARE''), WordB],
           [Lit [38463, 32852, 37195]],
           [Lit (asc ''Dubai'')],
           [Lit [36842, 25308]]],
       zh = [38463, 32852, 37195], en = asc ''UAE'',
       flag = [55356, 56806, 55356, 56810]\<rparr>,
      \<comment> \<open>/United\s?States|\bUSA\b|\bUS\b|\u7F8E\u56FD|Los\s?Angeles|San\s?Jose|New\s?York|Chicago|Miami|Seattle|Dallas/i\<close>
      \<lparr>key = BuiltIn
          [[Lit (asc ''United''), OptSpace, Lit (asc ''States'')],
           [WordB, Lit (asc ''USA''), WordB],
           [WordB, Lit (asc ''US''), WordB],
           [Lit [32654, 22269]],
           [Lit (asc ''Los''), OptSpace, Lit (asc ''Angeles'')],
           [Lit (asc ''San''), OptSpace, Lit (asc ''Jose'')],
           [Lit (asc ''New''), OptSpace, Lit (asc ''York'')],
           [Lit (asc ''Chicago'')],
           [Lit (asc ''Miami'')],
           [Lit (asc ''Seattle'')],
           [Lit (asc ''Dallas'')]],
       zh = [32654, 22269], en = asc ''United States'',
       flag = [55356, 56826, 55356, 56824]\<rparr>,
      \<comment> \<open>/\bCanada\b|\bCAN?\b|\u52A0\u62FF\u5927|Toronto|Vancouver|Montreal/i\<close>
      \<lparr>key = BuiltIn
          [[WordB, Lit (asc ''Canada''), WordB],
           [WordB, Lit (asc ''CA''), Opt (cu CHR ''N''), WordB],
           [Lit [21152, 25343, 22823]],
           [Lit (asc ''Toronto'')],
           [Lit (asc ''Vancouver'')],
           [Lit (asc ''Montreal'')]],
       zh = [21152, 25343, 22823], en = asc ''Canada'',
       flag = [55356, 56808, 55356, 56806]\<rparr>,
      \<comment> \<open>/Mexico|\bMEX?\b|\u58A8\u897F\u54E5|Mexico\s?City/i\<close>
      \<lparr>key = BuiltIn
          [[Lit (asc ''Mexico'')],
           [WordB, Lit (asc ''ME''), Opt (cu CHR ''X''), WordB],
           [Lit [22696, 35199, 21733]],
           [Lit (asc ''Mexico''), OptSpace, Lit (asc ''City'')]],
       zh = [22696, 35199, 21733], en = asc ''Mexico'',
       flag = [55356, 56818, 55356, 56829]\<rparr>,
      \<comment> \<open>/United\s?Kingdom|\bGBR\b|\bUK\b|\u82F1\u56FD|London|\u4F26\u6566/i\<close>
      \<lparr>key = BuiltIn
          [[Lit (asc ''United''), OptSpace, Lit (asc ''Kingdom'')],
           [WordB, Lit (asc ''GBR''), WordB],
           [WordB, Lit (asc ''UK''), WordB],
           [Lit [33521, 22269]],
           [Lit (asc ''London'')],
           [Lit [20262, 25958]]],
       zh = [33521, 22269], en = asc ''United Kingdom'',
       flag = [55356, 56812, 55356, 56807]\<rparr>,
      \<comment> \<open>/Germany|\bDEU?\b|\u5FB7\u56FD|Frankfurt|Berlin|\u6CD5\u5170\u514B\u798F|\u67CF\u6797/i\<close>
      \<lparr>key = BuiltIn
          [[Lit (asc ''Germany'')],
           [WordB, Lit (asc ''DE''), Opt (cu CHR ''U''), WordB],
           [Lit [24503, 22269]],
           [Lit (asc ''Frankfurt'')],
           [Lit (asc ''Berlin'')],
           [Lit [27861, 20848, 20811, 31119]],
           [Lit [26575, 26519]]],
       zh = [24503, 22269], en = asc ''Germany'',
       flag = [55356, 56809, 55356, 56810]\<rparr>,
      \<comment> \<open>/\bFrance\b|\bFRA?\b|\u6CD5\u56FD|Paris|\u5DF4\u9ECE/i\<close>
      \<lparr>key = BuiltIn
          [[WordB, Lit (asc ''France''), WordB],
           [WordB, Lit (asc ''FR''), Opt (cu CHR ''A''), WordB],
           [Lit [27861, 22269]],
           [Lit (asc ''Paris'')],
           [Lit [24052, 40654]]],
       zh = [27861, 22269], en = asc ''France'',
       flag = [55356, 56811, 55356, 56823]\<rparr>,
      \<comment> \<open>/Netherlands|\bNLD?\b|\u8377\u5170|Amsterdam|\u963F\u59C6\u65AF\u7279\u4E39/i\<close>
      \<lparr>key = BuiltIn
          [[Lit (asc ''Netherlands'')],
           [WordB, Lit (asc ''NL''), Opt (cu CHR ''D''), WordB],
           [Lit [33655, 20848]],
           [Lit (asc ''Amsterdam'')],
           [Lit [38463, 22982, 26031, 29305, 20025]]],
       zh = [33655, 20848], en = asc ''Netherlands'',
       flag = [55356, 56819, 55356, 56817]\<rparr>,
      \<comment> \<open>/Russia|\bRUS?\b|\u4FC4\u7F57\u65AF|Moscow|\u83AB\u65AF\u79D1/i\<close>
      \<lparr>key = BuiltIn
          [[Lit (asc ''Russia'')],
           [WordB, Lit (asc ''RU''), Opt (cu CHR ''S''), WordB],
           [Lit [20420, 32599, 26031]],
           [Lit (asc ''Moscow'')],
           [Lit [33707, 26031, 31185]]],
       zh = [20420, 32599, 26031], en = asc ''Russia'',
       flag = [55356, 56823, 55356, 56826]\<rparr>,
      \<comment> \<open>/\bItaly\b|\bITA?\b|\u610F\u5927\u5229|Rome|Milan|\u7F57\u9A6C|\u7C73\u5170/i\<close>
      \<lparr>key = BuiltIn
          [[WordB, Lit (asc ''Italy''), WordB],
           [WordB, Lit (asc ''IT''), Opt (cu CHR ''A''), WordB],
           [Lit [24847, 22823, 21033]],
           [Lit (asc ''Rome'')],
           [Lit (asc ''Milan'')],
           [Lit [32599, 39532]],
           [Lit [31859, 20848]]],
       zh = [24847, 22823, 21033], en = asc ''Italy'',
       flag = [55356, 56814, 55356, 56825]\<rparr>,
      \<comment> \<open>/\bSpain\b|\bESP?\b|\u897F\u73ED\u7259|Madrid|Barcelona/i\<close>
      \<lparr>key = BuiltIn
          [[WordB, Lit (asc ''Spain''), WordB],
           [WordB, Lit (asc ''ES''), Opt (cu CHR ''P''), WordB],
           [Lit [35199, 29677, 29273]],
           [Lit (asc ''Madrid'')],
           [Lit (asc ''Barcelona'')]],
       zh = [35199, 29677, 29273], en = asc ''Spain'',
       flag = [55356, 56810, 55356, 56824]\<rparr>,
      \<comment> \<open>/Switzerland|\bCHE?\b|\u745E\u58EB|Zurich|\u82CF\u9ECE\u4E16/i\<close>
      \<lparr>key = BuiltIn
          [[Lit (asc ''Switzerland'')],
           [WordB, Lit (asc ''CH''), Opt (cu CHR ''E''), WordB],
           [Lit [29790, 22763]],
           [Lit (asc ''Zurich'')],
           [Lit [33487, 40654, 19990]]],
       zh = [29790, 22763], en = asc ''Switzerland'',
       flag = [55356, 56808, 55356, 56813]\<rparr>,
      \<comment> \<open>/Sweden|\bSWE?\b|\u745E\u5178|Stockholm/i\<close>
      \<lparr>key = BuiltIn
          [[Lit (asc ''Sweden'')],
           [WordB, Lit (asc ''SW''), Opt (cu CHR ''E''), WordB],
           [Lit [29790, 20856]],
           [Lit (asc ''Stockholm'')]],
       zh = [29790, 20856], en = asc ''Sweden'',
       flag = [55356, 56824, 55356, 56810]\<rparr>,
      \<comment> \<open>/Norway|\bNOR?\b|\u632A\u5A01|Oslo/i\<close>
      \<lparr>key = BuiltIn
          [[Lit (asc ''Norway'')],
           [WordB, Lit (asc ''NO''), Opt (cu CHR ''R''), WordB],
           [Lit [25386, 23041]],
           [Lit (asc ''Oslo'')]],
       zh = [25386, 23041], en = asc ''Norway'',
       flag = [55356, 56819, 55356, 56820]\<rparr>,
      \<comment> \<open>/Finland|\bFIN?\b|\u82AC\u5170|Helsinki/i\<close>
      \<lparr>key = BuiltIn
          [[Lit (asc ''Finland'')],
           [WordB, Lit (asc ''FI''), Opt (cu CHR ''N''), WordB],
           [Lit [33452, 20848]],
           [Lit (asc ''Helsinki'')]],
       zh = [33452, 20848], en = asc ''Finland'',
       flag = [55356, 56811, 55356, 56814]\<rparr>,
      \<comment> \<open>/Denmark|\bDNK?\b|\u4E39\u9EA6|Copenhagen/i\<close>
      \<lparr>key = BuiltIn
          [[Lit (asc ''Denmark'')],
           [WordB, Lit (asc ''DN''), Opt (cu CHR ''K''), WordB],
           [Lit [20025, 40614]],
           [Lit (asc ''Copenhagen'')]],
       zh = [20025, 40614], en = asc ''Denmark'',
       flag = [55356, 56809, 55356, 56816]\<rparr>,
      \<comment> \<open>/Poland|\bPOL?\b|\u6CE2\u5170|Warsaw/i\<close>
      \<lparr>key = BuiltIn
          [[Lit (asc ''Poland'')],
           [WordB, Lit (asc ''PO''), Opt (cu CHR ''L''), WordB],
           [Lit [27874, 20848]],
           [Lit (asc ''Warsaw'')]],
       zh = [27874, 20848], en = asc ''Poland'',
       flag = [55356, 56821, 55356, 56817]\<rparr>,
      \<comment> \<open>/Austria|\bAUT?\b|\u5965\u5730\u5229|Vienna/i\<close>
      \<lparr>key = BuiltIn
          [[Lit (asc ''Austria'')],
           [WordB, Lit (asc ''AU''), Opt (cu CHR ''T''), WordB],
           [Lit [22885, 22320, 21033]],
           [Lit (asc ''Vienna'')]],
       zh = [22885, 22320, 21033], en = asc ''Austria'',
       flag = [55356, 56806, 55356, 56825]\<rparr>,
      \<comment> \<open>/Belgium|\bBEL?\b|\u6BD4\u5229\u65F6|Brussels/i\<close>
      \<lparr>key = BuiltIn
          [[Lit (asc ''Belgium'')],
           [WordB, Lit (asc ''BE''), Opt (cu CHR ''L''), WordB],
           [Lit [27604, 21033, 26102]],
           [Lit (asc ''Brussels'')]],
       zh = [27604, 21033, 26102], en = asc ''Belgium'',
       flag = [55356, 56807, 55356, 56810]\<rparr>,
      \<comment> \<open>/Czech|\bCZE?\b|\u6377\u514B|Prague/i\<close>
      \<lparr>key = BuiltIn
          [[Lit (asc ''Czech'')],
           [WordB, Lit (asc ''CZ''), Opt (cu CHR ''E''), WordB],
           [Lit [25463, 20811]],
           [Lit (asc ''Prague'')]],
       zh = [25463, 20811], en = asc ''Czech Republic'',
       flag = [55356, 56808, 55356, 56831]\<rparr>,
      \<comment> \<open>/Hungary|\bHUN?\b|\u5308\u7259\u5229|Budapest/i\<close>
      \<lparr>key = BuiltIn
          [[Lit (asc ''Hungary'')],
           [WordB, Lit (asc ''HU''), Opt (cu CHR ''N''), WordB],
           [Lit [21256, 29273, 21033]],
           [Lit (asc ''Budapest'')]],
       zh = [21256, 29273, 21033], en = asc ''Hungary'',
       flag = [55356, 56813, 55356, 56826]\<rparr>,
      \<comment> \<open>/Romania|\bROU?\b|\u7F57\u9A6C\u5C3C\u4E9A|Bucharest/i\<close>
      \<lparr>key = BuiltIn
          [[Lit (asc ''Romania'')],
           [WordB, Lit (asc ''RO''), Opt (cu CHR ''U''), WordB],
           [Lit [32599, 39532, 23612, 20122]],
           [Lit (asc ''Bucharest'')]],
       zh = [32599, 39532, 23612, 20122], en = asc ''Romania'',
       flag = [55356, 56823, 55356, 56820]\<rparr>,
      \<comment> \<open>/Bulgaria|\bBGR?\b|\u4FDD\u52A0\u5229\u4E9A|Sofia/i\<close>
      \<lparr>key = BuiltIn
          [[Lit (asc ''Bulgaria'')],
           [WordB, Lit (asc ''BG''), Opt (cu CHR ''R''), WordB],
           [Lit [20445, 21152, 21033, 20122]],
           [Lit (asc ''Sofia'')]],
       zh = [20445, 21152, 21033, 20122], en = asc ''Bulgaria'',
       flag = [55356, 56807, 55356, 56812]\<rparr>,
      \<comment> \<open>/Ukraine|\bUKR?\b|\u4E4C\u514B\u5170|Kiev/i\<close>
      \<lparr>key = BuiltIn
          [[Lit (asc ''Ukraine'')],
           [WordB, Lit (asc ''UK''), Opt (cu CHR ''R''), WordB],
           [Lit [20044, 20811, 20848]],
           [Lit (asc ''Kiev'')]],
       zh = [20044, 20811, 20848], en = asc ''Ukraine'',
       flag = [55356, 56826, 55356, 56806]\<rparr>,
      \<comment> \<open>/Ireland|\bIRL?\b|\u7231\u5C14\u5170|Dublin/i\<close>
      \<lparr>key = BuiltIn
          [[Lit (asc ''Ireland'')],
           [WordB, Lit (asc ''IR''), Opt (cu CHR ''L''), WordB],
           [Lit [29233, 23572, 20848]],
           [Lit (asc ''Dublin'')]],
       zh = [29233, 23572, 20848], en = asc ''Ireland'',
       flag = [55356, 56814, 55356, 56810]\<rparr>,
      \<comment> \<open>/Portugal|\bPRT?\b|\u8461\u8404\u7259|Lisbon/i\<close>
      \<lparr>key = BuiltIn
          [[Lit (asc ''Portugal'')],
           [WordB, Lit (asc ''PR''), Opt (cu CHR ''T''), WordB],
           [Lit [33889, 33796, 29273]],
           [Lit (asc ''Lisbon'')]],
       zh = [33889, 33796, 29273], en = asc ''Portugal'',
       flag = [55356, 56821, 55356, 56825]\<rparr>,
      \<comment> \<open>/Greece|\bGRC?\b|\u5E0C\u814A|Athens/i\<close>
      \<lparr>key = BuiltIn
          [[Lit (asc ''Greece'')],
           [WordB, Lit (asc ''GR''), Opt (cu CHR ''C''), WordB],
           [Lit [24076, 33098]],
           [Lit (asc ''Athens'')]],
       zh = [24076, 33098], en = asc ''Greece'',
       flag = [55356, 56812, 55356, 56823]\<rparr>,
      \<comment> \<open>/Iceland|\bISL?\b|\u51B0\u5C9B|Reykjavik/i\<close>
      \<lparr>key = BuiltIn
          [[Lit (asc ''Iceland'')],
           [WordB, Lit (asc ''IS''), Opt (cu CHR ''L''), WordB],
           [Lit [20912, 23707]],
           [Lit (asc ''Reykjavik'')]],
       zh = [20912, 23707], en = asc ''Iceland'',
       flag = [55356, 56814, 55356, 56824]\<rparr>,
      \<comment> \<open>/Australia|\bAUS?\b|\u6FB3\u5927\u5229\u4E9A|\u6FB3\u6D32|Sydney|Melbourne|\u6089\u5C3C|\u58A8\u5C14\u672C/i\<close>
      \<lparr>key = BuiltIn
          [[Lit (asc ''Australia'')],
           [WordB, Lit (asc ''AU''), Opt (cu CHR ''S''), WordB],
           [Lit [28595, 22823, 21033, 20122]],
           [Lit [28595, 27954]],
           [Lit (asc ''Sydney'')],
           [Lit (asc ''Melbourne'')],
           [Lit [24713, 23612]],
           [Lit [22696, 23572, 26412]]],
       zh = [28595, 22823, 21033, 20122], en = asc ''Australia'',
       flag = [55356, 56806, 55356, 56826]\<rparr>,
      \<comment> \<open>/New\s?Zealand|\bNZL?\b|\u65B0\u897F\u5170|Auckland|Wellington/i\<close>
      \<lparr>key = BuiltIn
          [[Lit (asc ''New''), OptSpace, Lit (asc ''Zealand'')],
           [WordB, Lit (asc ''NZ''), Opt (cu CHR ''L''), WordB],
           [Lit [26032, 35199, 20848]],
           [Lit (asc ''Auckland'')],
           [Lit (asc ''Wellington'')]],
       zh = [26032, 35199, 20848], en = asc ''New Zealand'',
       flag = [55356, 56819, 55356, 56831]\<rparr>,
      \<comment> \<open>/Brazil|\bBRA?\b|\u5DF4\u897F|Sao\s?Paulo|Rio/i\<close>
      \<lparr>key = BuiltIn
          [[Lit (asc ''Brazil'')],
           [WordB, Lit (asc ''BR''), Opt (cu CHR ''A''), WordB],
           [Lit [24052, 35199]],
           [Lit (asc ''Sao''), OptSpace, Lit (asc ''Paulo'')],
           [Lit (asc ''Rio'')]],
       zh = [24052, 35199], en = asc ''Brazil'',
       flag = [55356, 56807, 55356, 56823]\<rparr>,
      \<comment> \<open>/Argentina|\bARG?\b|\u963F\u6839\u5EF7|Buenos\s?Aires/i\<close>
      \<lparr>key = BuiltIn
          [[Lit (asc ''Argentina'')],
           [WordB, Lit (asc ''AR''), Opt (cu CHR ''G''), WordB],
           [Lit [38463, 26681, 24311]],
           [Lit (asc ''Buenos''), OptSpace, Lit (asc ''Aires'')]],
       zh = [38463, 26681, 24311], en = asc ''Argentina'',
       flag = [55356, 56806, 55356, 56823]\<rparr>,
      \<comment> \<open>/Chile|\bCHL?\b|\u667A\u5229|Santiago/i\<close>
      \<lparr>key = BuiltIn
          [[Lit (asc ''Chile'')],
           [WordB, Lit (asc ''CH''), Opt (cu CHR ''L''), WordB],
           [Lit [26234, 21033]],
           [Lit (asc ''Santiago'')]],
       zh = [26234, 21033], en = asc ''Chile'',
       flag = [55356, 56808, 55356, 56817]\<rparr>,
      \<comment> \<open>/South\s?Africa|\bZAF?\b|\u5357\u975E|Cape\s?Town|Johannesburg/i\<close>
      \<lparr>key = BuiltIn
          [[Lit (asc ''South''), OptSpace, Lit (asc ''Africa'')],
           [WordB, Lit (asc ''ZA''), Opt (cu CHR ''F''), WordB],
           [Lit [21335, 38750]],
           [Lit (asc ''Cape''), OptSpace, Lit (asc ''Town'')],
           [Lit (asc ''Johannesburg'')]],
       zh = [21335, 38750], en = asc ''South Africa'',
       flag = [55356, 56831, 55356, 56806]\<rparr>,
      \<comment> \<open>/Egypt|\bEGY?\b|\u57C3\u53CA|Cairo/i\<close>
      \<lparr>key = BuiltIn
          [[Lit (asc ''Egypt'')],
           [WordB, Lit (asc ''EG''), Opt (cu CHR ''Y''), WordB],
           [Lit [22467, 21450]],
           [Lit (asc ''Cairo'')]],
       zh = [22467, 21450], en = asc ''Egypt'',
       flag = [55356, 56810, 55356, 56812]\<rparr>,
      \<comment> \<open>/Nigeria|\bNGA?\b|\u5C3C\u65E5\u5229\u4E9A|Lagos/i\<close>
      \<lparr>key = BuiltIn
          [[Lit (asc ''Nigeria'')],
           [WordB, Lit (asc ''NG''), Opt (cu CHR ''A''), WordB],
           [Lit [23612, 26085, 21033, 20122]],
           [Lit (asc ''Lagos'')]],
       zh = [23612, 26085, 21033, 20122], en = asc ''Nigeria'',
       flag = [55356, 56819, 55356, 56812]\<rparr>
     ]\<close>

text \<open>\<open>s.replace(/[\u{1F1E6}-\u{1F1FF}]{2}/gu, '')\<close>: every pair of regional indicators.\<close>

definition is_indicator :: "nat \<Rightarrow> nat \<Rightarrow> bool" where
  "is_indicator a b = (a = 55356 \<and> 56806 \<le> b \<and> b \<le> 56831)"

fun remove_flag_pairs :: "jstr \<Rightarrow> jstr" where
  "remove_flag_pairs (a # b # c # d # r) =
     (if is_indicator a b \<and> is_indicator c d then remove_flag_pairs r
      else a # remove_flag_pairs (b # c # d # r))"
| "remove_flag_pairs r = r"

text \<open>
  \<open>s.replace(/x|y|.../g, '')\<close> for alternatives that are literal, non-empty texts: at
  each position the first alternative that matches is cut.
\<close>

function remove_literals :: "jstr list \<Rightarrow> jstr \<Rightarrow> jstr" where
  "remove_literals alts [] = []"
| "remove_literals alts (c # cs) =
     (case find (\<lambda>a. a \<noteq> [] \<and> prefix a (c # cs)) alts of
        None \<Rightarrow> c # remove_literals alts cs
      | Some a \<Rightarrow> remove_literals alts (drop (length a) (c # cs)))"
  by pat_completeness auto
termination
  by (relation "measure (\<lambda>(alts, s). length s)") (auto simp: find_Some_iff)

text \<open>The five flag glyphs of \<open>cleanRegionFromName\<close>, and the default \<open>fallbackFlag\<close>.\<close>

definition other_flags :: "jstr list" where
  "other_flags =
     [[55356, 57332, 8205, 9760, 65039],
      [55356, 57331, 65039, 8205, 55356, 57096],
      [55356, 57331, 65039, 8205, 9895, 65039],
      [55356, 57332],
      [55356, 57331, 65039]]"

definition pirate_flag :: jstr where
  "pirate_flag = [55356, 57332, 8205, 9760, 65039]"

section \<open>The configuration\<close>

record 'r config =
  subName :: jstr
  useAbbr :: bool
  typeFmt :: jstr
  typeCase :: jstr
  sep :: jstr
  includeType :: bool
  pos :: jstr
  template :: jstr
  keepUnknownType :: jstr
  enableRemoveEmoji :: bool
  enableTrimSpaces :: bool
  enableSanitize :: bool
  maxLen :: num
  enableNormalize :: bool
  enableCjkSpace :: bool
  include_keys :: "jstr list"
  exclude_keys :: "jstr list"
  rxInclude :: "'r option"
  rxExclude :: "'r option"
  onlyTypes :: "jstr list"
  dropTypes :: "jstr list"
  dedupe :: jstr
  sortBy :: jstr
  sortOrder :: jstr
  addFlag :: bool
  locLang :: jstr
  fallbackFlag :: jstr
  removeRegionName :: bool
  conflict :: jstr
  indexPad :: num
  hashLen :: num
  typeAbbr :: "(jstr \<times> jstr) list"
  userRegions :: "'r region list"

definition typeAbbr_builtin :: "(jstr \<times> jstr) list" where
  "typeAbbr_builtin =
     [(asc ''SHADOWSOCKS'', asc ''SS''),
      (asc ''VMESS'', asc ''VM''),
      (asc ''TROJAN'', asc ''TR''),
      (asc ''HYSTERIA'', asc ''HY''),
      (asc ''HYSTERIA2'', asc ''HY2''),
      (asc ''VLESS'', asc ''VL''),
      (asc ''WIREGUARD'', asc ''WG''),
      (asc ''TUIC'', asc ''TUIC''),
      (asc ''HTTP'', asc ''HTTP''),
      (asc ''SOCKS5'', asc ''S5''),
      (asc ''SNELL'', asc ''SN''),
      (asc ''ANYTLS'', asc ''AT'')]"

text \<open>
  \<^verbatim>\<open>
  parseList(args.map).forEach(pair => {
    const [k, v] = pair.split(':');
    if (k && v) typeAbbr[k.trim().toUpperCase()] = v.trim();
  });
  \<close>
\<close>

definition add_abbr :: "'r runtime \<Rightarrow> (jstr \<times> jstr) list \<Rightarrow> jstr \<Rightarrow> (jstr \<times> jstr) list" where
  "add_abbr rt tab pair =
     (case split_on (\<lambda>c. c = 58) pair of
        k # v # _ \<Rightarrow>
          if k \<noteq> [] \<and> v \<noteq> [] then AList.update (toUpperCase rt (trim k)) (trim v) tab else tab
      | _ \<Rightarrow> tab)"

text \<open>
  \<^verbatim>\<open>
  parseList(args.regionMap).forEach(entry => {
    const parts = entry.split(':');
    if (parts[0]) {
      userRegions.push({
        key: new RegExp(parts[0], 'i'),
        zh: parts[1] || parts[0],
        en: parts[1] || parts[0],
        flag: parts[2] || ''
      });
    }
  });
  \<close>
  \<open>new RegExp\<close> stands outside any \<open>try\<close>: a pattern that does not compile ends the run.
\<close>

definition nth_or :: "jstr list \<Rightarrow> nat \<Rightarrow> jstr \<Rightarrow> jstr" where
  "nth_or parts i dflt = (if i < length parts \<and> parts ! i \<noteq> [] then parts ! i else dflt)"

fun user_regions :: "'r runtime \<Rightarrow> jstr list \<Rightarrow> error + 'r region list" where
  "user_regions rt [] = Inr []"
| "user_regions rt (entry # entries) =
     (let parts = split_on (\<lambda>c. c = 58) entry;
          p0 = nth_or parts 0 []
      in if p0 \<noteq> [] then
           (case regexp rt p0 of
              None \<Rightarrow> Inl SyntaxError
            | Some r \<Rightarrow>
                bind (user_regions rt entries)
                  (\<lambda>rs. Inr (\<lparr>key = User r, zh = nth_or parts 1 p0, en = nth_or parts 1 p0,
                              flag = nth_or parts 2 []\<rparr> # rs)))
         else user_regions rt entries)"

text \<open>
  The statements of \<open>operator\<close> from its first line to the region table, in source order:
  the first \<open>decodeURI\<close> or \<open>new RegExp\<close> that raises ends the run with that error.
\<close>

definition parse_config :: "'r runtime \<Rightarrow> args \<Rightarrow> error + 'r config" where
  "parse_config rt args =
     bind (if truthy (args ''name'') then decodeURI (the (args ''name''))
           else if truthy (args ''subName'') then decodeURI (the (args ''subName''))
           else Inr []) (\<lambda>subName'.
     bind (case args ''sep'' of None \<Rightarrow> Inr (asc '' - '') | Some v \<Rightarrow> decodeURI v) (\<lambda>sep'.
     bind (if truthy (args ''template'') then decodeURI (the (args ''template'')) else Inr [])
       (\<lambda>template'.
     bind (parseList (args ''include'')) (\<lambda>include'.
     bind (parseList (args ''exclude'')) (\<lambda>exclude'.
     bind (parseList (args ''onlyTypes'')) (\<lambda>onlyTypes'.
     bind (parseList (args ''dropTypes'')) (\<lambda>dropTypes'.
     bind (if truthy (args ''fallbackFlag'') then decodeURI (the (args ''fallbackFlag''))
           else Inr pirate_flag) (\<lambda>fallbackFlag'.
     bind (if truthy (args ''map'') then parseList (args ''map'') else Inr []) (\<lambda>pairs.
     bind (if truthy (args ''regionMap'')
           then bind (parseList (args ''regionMap'')) (user_regions rt)
           else Inr []) (\<lambda>userRegions'.
     Inr \<lparr>subName = subName',
          useAbbr = parseBool rt (args ''abbr'') True,
          typeFmt = lower_or rt (args ''typeFmt'') (asc ''bracket''),
          typeCase = lower_or rt (args ''case'') (asc ''upper''),
          sep = sep',
          includeType = parseBool rt (args ''includeType'') True,
          pos = lower_or rt (args ''pos'') (asc ''before''),
          template = template',
          keepUnknownType = lower_or rt (args ''keepUnknownType'') (asc ''short''),
          enableRemoveEmoji = parseBool rt (args ''removeEmoji'') False,
          enableTrimSpaces = parseBool rt (args ''trimSpaces'') False,
          enableSanitize = parseBool rt (args ''sanitize'') False,
          maxLen = int_or (args ''maxLen'') 0,
          enableNormalize = parseBool rt (args ''normalize'') False,
          enableCjkSpace = parseBool rt (args ''cjkSpace'') False,
          include_keys = include',
          exclude_keys = exclude',
          rxInclude = toRegex rt (args ''regexInclude''),
          rxExclude = toRegex rt (args ''regexExclude''),
          onlyTypes = map (toUpperCase rt) onlyTypes',
          dropTypes = map (toUpperCase rt) dropTypes',
          dedupe = lower_or rt (args ''dedupe'') [],
          sortBy = lower_or rt (args ''sortBy'') [],
          sortOrder = lower_or rt (args ''sortOrder'') (asc ''asc''),
          addFlag = parseBool rt (args ''addFlag'') False,
          locLang = lower_or rt (args ''locLang'') (asc ''zh''),
          fallbackFlag = fallbackFlag',
          removeRegionName = parseBool rt (args ''removeRegionName'') False,
          conflict = lower_or rt (args ''conflict'') (asc ''index''),
          indexPad = int_or (args ''indexPad'') 2,
          hashLen = int_or (args ''hashLen'') 4,
          typeAbbr = foldl (add_abbr rt) typeAbbr_builtin pairs,
          userRegions = userRegions'\<rparr>))))))))))"

section \<open>Composing a name\<close>

text \<open>\<open>p.field\<close> on a list entry: an array has index properties only.\<close>

type_synonym node = "(jstr \<times> jsval) list"

fun props :: "jsval \<Rightarrow> node" where
  "props (Obj fs) = fs"
| "props (Arr xs) = zip (map toString10 [0..<length xs]) xs"
| "props v = []"

definition field :: "node \<Rightarrow> jstr \<Rightarrow> jsval" where
  "field fs k = (case map_of fs k of None \<Rightarrow> Undefined | Some v \<Rightarrow> v)"

definition get :: "jsval \<Rightarrow> jstr \<Rightarrow> jsval" where
  "get v k = field (props v) k"

text \<open>
  \<^verbatim>\<open>
  const detectRegion = (name) => {
    const n = safeStr(name);
    for (const r of userRegions) if (r.key.test(n)) return r;
    for (const r of builtInRegions) if (r.key.test(n)) return r;
    return null;
  };
  \<close>
\<close>

definition detectRegion :: "'r runtime \<Rightarrow> 'r config \<Rightarrow> jstr \<Rightarrow> 'r region option" where
  "detectRegion rt cfg n =
     (case find (\<lambda>r. key_test rt (key r) n) (userRegions cfg) of
        Some r \<Rightarrow> Some r
      | None \<Rightarrow> find (\<lambda>r. key_test rt (key r) n) builtInRegions)"

text \<open>
  \<^verbatim>\<open>
  const buildRegionStr = (name) => {
    if (!addFlag) return '';
    const region = detectRegion(name);
    const flag = region?.flag || fallbackFlag;
    if (locLang === 'flag') return flag;
    const label = (locLang === 'en') ? (region?.en || '') : (region?.zh || '');
    return label ? `${flag} ${label}` : flag;
  };
  \<close>
\<close>

definition buildRegionStr :: "'r runtime \<Rightarrow> 'r config \<Rightarrow> jstr \<Rightarrow> jstr" where
  "buildRegionStr rt cfg name =
     (if \<not> addFlag cfg then []
      else
        (let region = detectRegion rt cfg name;
             flag' = (case region of
                        None \<Rightarrow> fallbackFlag cfg
                      | Some r \<Rightarrow> if flag r \<noteq> [] then flag r else fallbackFlag cfg)
         in if locLang cfg = asc ''flag'' then flag'
            else
              (let label = (case region of
                              None \<Rightarrow> []
                            | Some r \<Rightarrow> if locLang cfg = asc ''en'' then en r else zh r)
               in if label \<noteq> [] then flag' @ asc '' '' @ label else flag')))"

text \<open>
  \<^verbatim>\<open>
  const buildTypeDisplay = (fullType) => {
    const upperType = fullType.toUpperCase();
    let abbr = typeAbbr[upperType];
    if (!abbr) {
      if (keepUnknownType === 'ignore') return '';
      abbr = keepUnknownType === 'full' ? upperType : upperType.substring(0, 2);
    }
    let label = useAbbr ? abbr : upperType;
    if (typeCase === 'lower') label = label.toLowerCase();
    switch (typeFmt) {
      case 'paren': return `(${label})`;
      case 'none': return label;
      default: return `[${label}]`;
    }
  };
  \<close>
\<close>

definition buildTypeDisplay :: "'r runtime \<Rightarrow> 'r config \<Rightarrow> jstr \<Rightarrow> jstr" where
  "buildTypeDisplay rt cfg fullType =
     (let upperType = toUpperCase rt fullType;
          found = map_of (typeAbbr cfg) upperType;
          missing = (case found of None \<Rightarrow> True | Some a \<Rightarrow> a = [])
      in if missing \<and> keepUnknownType cfg = asc ''ignore'' then []
         else
           (let abbr = (if missing
                        then (if keepUnknownType cfg = asc ''full'' then upperType
                              else take 2 upperType)
                        else the found);
                label = (if useAbbr cfg then abbr else upperType);
                label' = (if typeCase cfg = asc ''lower'' then toLowerCase rt label else label)
            in if typeFmt cfg = asc ''paren'' then asc ''('' @ label' @ asc '')''
               else if typeFmt cfg = asc ''none'' then label'
               else asc ''['' @ label' @ asc '']''))"

text \<open>
  \<^verbatim>\<open>
  const cleanRegionFromName = (name) => {
    if (!removeRegionName) return name;
    let cleanedName = name;
    for (const r of userRegions) {
      cleanedName = cleanedName.replace(r.key, '').trim();
    }
    for (const r of builtInRegions) {
      cleanedName = cleanedName.replace(r.key, '').trim();
    }
    cleanedName = cleanedName.replace(/[\u{1F1E6}-\u{1F1FF}]{2}/gu, '').trim();
    cleanedName = cleanedName.replace(/(five flag glyphs)/g, '').trim();
    return cleanedName.replace(/\s+/g, ' ').trim();
  };
  \<close>
\<close>

definition cleanRegionFromName :: "'r runtime \<Rightarrow> 'r config \<Rightarrow> jstr \<Rightarrow> jstr" where
  "cleanRegionFromName rt cfg name =
     (if \<not> removeRegionName cfg then name
      else
        (let n1 = foldl (\<lambda>cleanedName r. trim (key_remove rt (key r) cleanedName)) name
                    (userRegions cfg);
             n2 = foldl (\<lambda>cleanedName r. trim (key_remove rt (key r) cleanedName)) n1
                    builtInRegions;
             n3 = trim (remove_flag_pairs n2);
             n4 = trim (remove_literals other_flags n3)
         in trim (collapse_runs 1 n4)))"

subsection \<open>\<open>replaceAll\<close> with a text pattern\<close>

text \<open>
  In the replacement text of \<open>replaceAll\<close> a dollar sign is special: \<open>$$\<close> is a dollar,
  \<open>$&\<close> the matched text, \<open>$`\<close> and \<open>$'\<close> what stands before and after the match. With
  a text pattern there are no groups, so \<open>$1\<close> and \<open>$<\<close> stay as they are.
\<close>

fun get_substitution :: "jstr \<Rightarrow> jstr \<Rightarrow> nat \<Rightarrow> jstr \<Rightarrow> jstr" where
  "get_substitution matched str position (c # d # r) =
     (if c = 36 \<and> d = 36 then 36 # get_substitution matched str position r
      else if c = 36 \<and> d = 38 then matched @ get_substitution matched str position r
      else if c = 36 \<and> d = 96 then take position str @ get_substitution matched str position r
      else if c = 36 \<and> d = 39
        then drop (position + length matched) str @ get_substitution matched str position r
      else c # get_substitution matched str position (d # r))"
| "get_substitution matched str position r = r"

text \<open>
  \<open>replace_from pat repl str position rest\<close> scans \<open>rest\<close>, the part of \<open>str\<close> from index
  \<open>position\<close> on; the patterns of the script are the five non-empty placeholders.
\<close>

function replace_from :: "jstr \<Rightarrow> jstr \<Rightarrow> jstr \<Rightarrow> nat \<Rightarrow> jstr \<Rightarrow> jstr" where
  "replace_from pat repl str position [] = []"
| "replace_from pat repl str position (c # cs) =
     (if pat \<noteq> [] \<and> prefix pat (c # cs)
      then get_substitution pat str position repl
           @ replace_from pat repl str (position + length pat) (drop (length pat) (c # cs))
      else c # replace_from pat repl str (Suc position) cs)"
  by pat_completeness auto
termination
  by (relation "measure (\<lambda>(pat, repl, str, position, rest). length rest)") auto

definition replaceAll :: "jstr \<Rightarrow> jstr \<Rightarrow> jstr \<Rightarrow> jstr" where
  "replaceAll pat repl str = replace_from pat repl str 0 str"

subsection \<open>\<open>processName\<close>\<close>

text \<open>
  \<^verbatim>\<open>
  const processName = (proxy) => {
    const fullType = safeStr(proxy.type).toUpperCase();
    const typeDisplay = includeType ? buildTypeDisplay(fullType) : '';
    let originalName = safeStr(proxy.name);
    let newName = cleanRegionFromName(originalName);
    const regionStr = buildRegionStr(originalName);
    const shouldFormat = !!subName || !!template || includeType === false || addFlag;
    if (shouldFormat) {
      if (template) {
        newName = template
          .replaceAll('{prefix}', subName)
          .replaceAll('{sep}', sep)
          .replaceAll('{type}', typeDisplay)
          .replaceAll('{region}', regionStr)
          .replaceAll('{name}', newName);
      } else if (subName) {
        const parts = [];
        if (regionStr) parts.push(regionStr);
        parts.push(subName);
        if (pos === 'before') {
          if (typeDisplay) parts.push(typeDisplay);
          parts.push(newName);
        } else {
          parts.push(newName);
          if (typeDisplay) parts.push(typeDisplay);
        }
        newName = parts.join(sep);
      }
    }
    if (enableRemoveEmoji) newName = removeEmoji(newName);
    if (enableSanitize) newName = sanitizeChars(newName);
    if (enableTrimSpaces) newName = trimSpaces(newName);
    if (enableNormalize) newName = normalizeUnicode(newName);
    if (enableCjkSpace) newName = trimSpaces(addCjkSpaces(newName));
    if (maxLen > 0) newName = truncateText(newName, maxLen);
    return { ...proxy, name: newName };
  };
  \<close>
\<close>

definition fill_template ::
  "'r config \<Rightarrow> jstr \<Rightarrow> jstr \<Rightarrow> jstr \<Rightarrow> jstr" where
  "fill_template cfg typeDisplay regionStr newName =
     replaceAll (asc ''{name}'') newName
       (replaceAll (asc ''{region}'') regionStr
         (replaceAll (asc ''{type}'') typeDisplay
           (replaceAll (asc ''{sep}'') (sep cfg)
             (replaceAll (asc ''{prefix}'') (subName cfg) (template cfg)))))"

definition name_parts ::
  "'r config \<Rightarrow> jstr \<Rightarrow> jstr \<Rightarrow> jstr \<Rightarrow> jstr list" where
  "name_parts cfg typeDisplay regionStr newName =
     (if regionStr \<noteq> [] then [regionStr] else [])
     @ [subName cfg]
     @ (if pos cfg = asc ''before''
        then (if typeDisplay \<noteq> [] then [typeDisplay] else []) @ [newName]
        else [newName] @ (if typeDisplay \<noteq> [] then [typeDisplay] else []))"

definition shouldFormat :: "'r config \<Rightarrow> bool" where
  "shouldFormat cfg =
     (subName cfg \<noteq> [] \<or> template cfg \<noteq> [] \<or> includeType cfg = False \<or> addFlag cfg)"

definition positive :: "num \<Rightarrow> bool" where
  "positive x = (case x of Fin i \<Rightarrow> 0 < i | PosInf \<Rightarrow> True | _ \<Rightarrow> False)"

definition finish_name :: "'r runtime \<Rightarrow> 'r config \<Rightarrow> jstr \<Rightarrow> jstr" where
  "finish_name rt cfg n0 =
     (let n1 = (if enableRemoveEmoji cfg then removeEmoji n0 else n0);
          n2 = (if enableSanitize cfg then sanitizeChars n1 else n1);
          n3 = (if enableTrimSpaces cfg then trimSpaces n2 else n2);
          n4 = (if enableNormalize cfg then normalizeUnicode rt n3 else n3);
          n5 = (if enableCjkSpace cfg then trimSpaces (addCjkSpaces n4) else n4)
      in if positive (maxLen cfg) then truncateText n5 (maxLen cfg) else n5)"

definition new_name :: "'r runtime \<Rightarrow> 'r config \<Rightarrow> jsval \<Rightarrow> jstr" where
  "new_name rt cfg proxy =
     (let fullType = toUpperCase rt (safeStr (get proxy (asc ''type'')));
          typeDisplay = (if includeType cfg then buildTypeDisplay rt cfg fullType else []);
          originalName = safeStr (get proxy (asc ''name''));
          newName = cleanRegionFromName rt cfg originalName;
          regionStr = buildRegionStr rt cfg originalName;
          newName' =
            (if shouldFormat cfg then
               (if template cfg \<noteq> [] then fill_template cfg typeDisplay regionStr newName
                else if subName cfg \<noteq> []
                  then join (sep cfg) (name_parts cfg typeDisplay regionStr newName)
                else newName)
             else newName)
      in finish_name rt cfg newName')"

definition processName :: "'r runtime \<Rightarrow> 'r config \<Rightarrow> jsval \<Rightarrow> node" where
  "processName rt cfg proxy =
     AList.update (asc ''name'') (Str (new_name rt cfg proxy)) (props proxy)"

section \<open>The pipeline\<close>

text \<open>
  \<^verbatim>\<open>
  let list = Array.isArray(proxies) ? proxies.slice() : [];
  list = list.filter(p => p && typeof p === 'object');
  \<close>
\<close>

definition is_object :: "jsval \<Rightarrow> bool" where
  "is_object p = (case p of Obj fs \<Rightarrow> True | Arr xs \<Rightarrow> True | _ \<Rightarrow> False)"

definition sanitize_stage :: "jsval \<Rightarrow> jsval list" where
  "sanitize_stage proxies = (case proxies of Arr xs \<Rightarrow> filter is_object xs | _ \<Rightarrow> [])"

text \<open>
  \<^verbatim>\<open>
  list = list.filter(p => {
    const type = safeStr(p.type).toUpperCase();
    const name = safeStr(p.name);
    if (onlyTypes.length && !onlyTypes.includes(type)) return false;
    if (dropTypes.length && dropTypes.includes(type)) return false;
    if (include.length && !include.some(k => name.includes(k))) return false;
    if (exclude.length && exclude.some(k => name.includes(k))) return false;
    if (rxInclude && !rxInclude.test(name)) return false;
    if (rxExclude && rxExclude.test(name)) return false;
    return true;
  });
  \<close>
\<close>

definition keep_node :: "'r runtime \<Rightarrow> 'r config \<Rightarrow> jsval \<Rightarrow> bool" where
  "keep_node rt cfg p =
     (let type = toUpperCase rt (safeStr (get p (asc ''type'')));
          name = safeStr (get p (asc ''name''))
      in if onlyTypes cfg \<noteq> [] \<and> type \<notin> set (onlyTypes cfg) then False
         else if dropTypes cfg \<noteq> [] \<and> type \<in> set (dropTypes cfg) then False
         else if include_keys cfg \<noteq> [] \<and> \<not> list_ex (includes_str name) (include_keys cfg)
           then False
         else if exclude_keys cfg \<noteq> [] \<and> list_ex (includes_str name) (exclude_keys cfg)
           then False
         else if (case rxInclude cfg of None \<Rightarrow> False | Some r \<Rightarrow> \<not> rx_test rt r name)
           then False
         else if (case rxExclude cfg of None \<Rightarrow> False | Some r \<Rightarrow> rx_test rt r name)
           then False
         else True)"

text \<open>
  \<^verbatim>\<open>
  if (dedupe) {
    const seen = new Set();
    list = list.filter(p => {
      const type = safeStr(p.type).toUpperCase();
      const addr = `${safeStr(p.server)}:${safeStr(p.port)}:${type}`;
      const name = safeStr(p.name);
      let key;
      if (dedupe === 'addr') key = `A|${addr}`;
      else if (dedupe === 'name') key = `N|${name}`;
      else if (dedupe === 'all') key = `A|${addr}|N|${name}`;
      else return true;
      if (seen.has(key)) return false;
      seen.add(key);
      return true;
    });
  }
  \<close>
\<close>

definition addr_of :: "'r runtime \<Rightarrow> jsval \<Rightarrow> jstr" where
  "addr_of rt p =
     safeStr (get p (asc ''server'')) @ asc '':'' @ safeStr (get p (asc ''port'')) @ asc '':''
     @ toUpperCase rt (safeStr (get p (asc ''type'')))"

definition dedupe_key :: "'r runtime \<Rightarrow> 'r config \<Rightarrow> jsval \<Rightarrow> jstr option" where
  "dedupe_key rt cfg p =
     (let addr = addr_of rt p;
          name = safeStr (get p (asc ''name''))
      in if dedupe cfg = asc ''addr'' then Some (asc ''A|'' @ addr)
         else if dedupe cfg = asc ''name'' then Some (asc ''N|'' @ name)
         else if dedupe cfg = asc ''all'' then Some (asc ''A|'' @ addr @ asc ''|N|'' @ name)
         else None)"

fun dedupe_loop :: "'r runtime \<Rightarrow> 'r config \<Rightarrow> jstr set \<Rightarrow> jsval list \<Rightarrow> jsval list" where
  "dedupe_loop rt cfg seen [] = []"
| "dedupe_loop rt cfg seen (p # ps) =
     (case dedupe_key rt cfg p of
        None \<Rightarrow> p # dedupe_loop rt cfg seen ps
      | Some k \<Rightarrow>
          if k \<in> seen then dedupe_loop rt cfg seen ps
          else p # dedupe_loop rt cfg (insert k seen) ps)"

definition dedupe_stage :: "'r runtime \<Rightarrow> 'r config \<Rightarrow> jsval list \<Rightarrow> jsval list" where
  "dedupe_stage rt cfg list = (if dedupe cfg \<noteq> [] then dedupe_loop rt cfg {} list else list)"

text \<open>
  \<^verbatim>\<open>
  if (sortBy) {
    list.sort((a, b) => {
      const av = sortBy === 'type' ? safeStr(a.type).toUpperCase() : safeStr(a.name);
      const bv = sortBy === 'type' ? safeStr(b.type).toUpperCase() : safeStr(b.name);
      const result = av.localeCompare(bv);
      return sortOrder === 'desc' ? -result : result;
    });
  }
  \<close>
  \<open>Array.prototype.sort\<close> is stable. With a comparator that is a consistent order its
  result is the one of the insertion sort below; with another comparator the language
  leaves the order of the result open, and the model still sorts by insertion.
\<close>

definition sort_value :: "'r runtime \<Rightarrow> 'r config \<Rightarrow> node \<Rightarrow> jstr" where
  "sort_value rt cfg a =
     (if sortBy cfg = asc ''type'' then toUpperCase rt (safeStr (field a (asc ''type'')))
      else safeStr (field a (asc ''name'')))"

definition compare_nodes :: "'r runtime \<Rightarrow> 'r config \<Rightarrow> node \<Rightarrow> node \<Rightarrow> int" where
  "compare_nodes rt cfg a b =
     (let result = localeCompare rt (sort_value rt cfg a) (sort_value rt cfg b)
      in if sortOrder cfg = asc ''desc'' then - result else result)"

fun insert_by :: "('a \<Rightarrow> 'a \<Rightarrow> int) \<Rightarrow> 'a \<Rightarrow> 'a list \<Rightarrow> 'a list" where
  "insert_by cmp x [] = [x]"
| "insert_by cmp x (y # ys) = (if cmp x y \<le> 0 then x # y # ys else y # insert_by cmp x ys)"

fun sort_by :: "('a \<Rightarrow> 'a \<Rightarrow> int) \<Rightarrow> 'a list \<Rightarrow> 'a list" where
  "sort_by cmp [] = []"
| "sort_by cmp (x # xs) = insert_by cmp x (sort_by cmp xs)"

definition sort_stage :: "'r runtime \<Rightarrow> 'r config \<Rightarrow> node list \<Rightarrow> node list" where
  "sort_stage rt cfg list =
     (if sortBy cfg \<noteq> [] then sort_by (compare_nodes rt cfg) list else list)"

text \<open>
  \<^verbatim>\<open>
  if (conflict !== 'none') {
    const nameCount = new Map();
    list = list.filter(p => {
      const name = safeStr(p.name);
      const count = (nameCount.get(name) || 0) + 1;
      nameCount.set(name, count);
      if (count === 1) return true;
      if (conflict === 'drop') return false;
      if (conflict === 'hash') {
        const hash = generateHash(`${p.server}:${p.port}:${p.type}:${p.name}`, hashLen);
        p.name = `${name}-${hash}`;
      } else {
        const num = count.toString().padStart(Math.max(2, indexPad), '0');
        p.name = `${name} ${num}`;
      }
      return true;
    });
  }
  \<close>
  \<open>nameCount\<close> is the map of the counts so far, 0 for a name not yet seen. The nodes of
  this stage are the fresh objects \<open>processName\<close> made, so assigning \<open>p.name\<close> touches
  no other node.
\<close>

definition hash_input :: "node \<Rightarrow> jstr" where
  "hash_input p =
     toString (field p (asc ''server'')) @ asc '':'' @ toString (field p (asc ''port''))
     @ asc '':'' @ toString (field p (asc ''type'')) @ asc '':''
     @ toString (field p (asc ''name''))"

definition set_name :: "node \<Rightarrow> jstr \<Rightarrow> node" where
  "set_name p n = AList.update (asc ''name'') (Str n) p"

definition index_suffix :: "num \<Rightarrow> nat \<Rightarrow> jstr" where
  "index_suffix pad count = padStart (math_max 2 pad) 48 (toString10 count)"

fun conflict_loop :: "'r config \<Rightarrow> (jstr \<Rightarrow> nat) \<Rightarrow> node list \<Rightarrow> node list" where
  "conflict_loop cfg nameCount [] = []"
| "conflict_loop cfg nameCount (p # ps) =
     (let name = safeStr (field p (asc ''name''));
          count = nameCount name + 1;
          nameCount' = nameCount (name := count)
      in if count = 1 then p # conflict_loop cfg nameCount' ps
         else if conflict cfg = asc ''drop'' then conflict_loop cfg nameCount' ps
         else if conflict cfg = asc ''hash''
           then set_name p (name @ asc ''-'' @ generateHash (Str (hash_input p)) (hashLen cfg))
                # conflict_loop cfg nameCount' ps
         else set_name p (name @ asc '' '' @ index_suffix (indexPad cfg) count)
              # conflict_loop cfg nameCount' ps)"

definition conflict_stage :: "'r config \<Rightarrow> node list \<Rightarrow> node list" where
  "conflict_stage cfg list =
     (if conflict cfg \<noteq> asc ''none'' then conflict_loop cfg (\<lambda>n. 0) list else list)"

definition pipeline :: "'r runtime \<Rightarrow> 'r config \<Rightarrow> jsval \<Rightarrow> node list" where
  "pipeline rt cfg proxies =
     conflict_stage cfg
       (sort_stage rt cfg
         (map (processName rt cfg)
           (dedupe_stage rt cfg
             (filter (keep_node rt cfg)
               (sanitize_stage proxies)))))"

text \<open>
  The whole function: the options are read first, and an error raised there ends the
  run; then the list goes through the stages.
\<close>

definition operator :: "'r runtime \<Rightarrow> args \<Rightarrow> jsval \<Rightarrow> error + node list" where
  "operator rt args proxies =
     bind (parse_config rt args) (\<lambda>cfg. Inr (pipeline rt cfg proxies))"

section \<open>Terms of the statements\<close>

text \<open>
  What follows is not code of the script: these are the notions the properties below
  are stated with.
\<close>

text \<open>The name and the \<open>server:port:TYPE\<close> text of a node as the stages read them.\<close>

definition input_name :: "jsval \<Rightarrow> jstr" where
  "input_name v = safeStr (get v (asc ''name''))"

definition node_name :: "node \<Rightarrow> jstr" where
  "node_name p = safeStr (field p (asc ''name''))"


text \<open>\<open>Array.isArray(v)\<close>, and the protocol type of a list entry as the stages read it.\<close>

definition is_array :: "jsval \<Rightarrow> bool" where
  "is_array v = (case v of Arr xs \<Rightarrow> True | _ \<Rightarrow> False)"




text \<open>
  \<open>occurrence xs i\<close> counts the entries up to index \<open>i\<close>, that one included, which are
  equal to the entry at index \<open>i\<close>: 1 for a first occurrence. \<open>index_mode\<close> holds when the \<open>conflict\<close> option selects the numbering branch, which
  is every value but \<open>none\<close>, \<open>drop\<close> and \<open>hash\<close>; \<open>numbered\<close> is what that branch makes
  of the node that is occurrence \<open>c\<close> of its name.
\<close>

definition occurrence :: "'a list \<Rightarrow> nat \<Rightarrow> nat" where
  "occurrence xs i = count_list (take (Suc i) xs) (xs ! i)"

definition index_mode :: "'r config \<Rightarrow> bool" where
  "index_mode cfg =
     (conflict cfg \<noteq> asc ''none'' \<and> conflict cfg \<noteq> asc ''drop''
      \<and> conflict cfg \<noteq> asc ''hash'')"

definition numbered :: "num \<Rightarrow> nat \<Rightarrow> node \<Rightarrow> node" where
  "numbered pad c p =
     (if c = 1 then p else set_name p (node_name p @ asc '' '' @ index_suffix pad c))"


text \<open>The configuration that an empty option bag gives.\<close>

definition default_config :: "'r config" where
  "default_config =
     \<lparr>subName = [], useAbbr = True, typeFmt = asc ''bracket'', typeCase = asc ''upper'',
      sep = asc '' - '', includeType = True, pos = asc ''before'', template = [],
      keepUnknownType = asc ''short'', enableRemoveEmoji = False, enableTrimSpaces = False,
      enableSanitize = False, maxLen = Fin 0, enableNormalize = False, enableCjkSpace = False,
      include_keys = [], exclude_keys = [], rxInclude = None, rxExclude = None,
      onlyTypes = [], dropTypes = [], dedupe = [], sortBy = [], sortOrder = asc ''asc'',
      addFlag = False, locLang = asc ''zh'', fallbackFlag = pirate_flag,
      removeRegionName = False, conflict = asc ''index'', indexPad = Fin 2, hashLen = Fin 4,
      typeAbbr = typeAbbr_builtin, userRegions = []\<rparr>"

text \<open>
  A configuration with no prefix and no template, and with the clean-up, filter,
  deduplication and sort options off, as they are by default. \<open>includeType\<close>, \<open>addFlag\<close>
  and the conflict options are left open.
\<close>

definition passthrough :: "'r config \<Rightarrow> bool" where
  "passthrough cfg =
     (subName cfg = [] \<and> template cfg = [] \<and> \<not> removeRegionName cfg
      \<and> \<not> enableRemoveEmoji cfg \<and> \<not> enableSanitize cfg \<and> \<not> enableTrimSpaces cfg
      \<and> \<not> enableNormalize cfg \<and> \<not> enableCjkSpace cfg \<and> \<not> positive (maxLen cfg)
      \<and> onlyTypes cfg = [] \<and> dropTypes cfg = [] \<and> include_keys cfg = []
      \<and> exclude_keys cfg = [] \<and> rxInclude cfg = None \<and> rxExclude cfg = None
      \<and> dedupe cfg = [] \<and> sortBy cfg = [])"

text \<open>A well-formed node: a record whose \<open>name\<close> is a string.\<close>

definition is_string :: "jsval \<Rightarrow> bool" where
  "is_string v = (case v of Str s \<Rightarrow> True | _ \<Rightarrow> False)"

definition named_record :: "jsval \<Rightarrow> bool" where
  "named_record v = (case v of Obj fs \<Rightarrow> is_string (field fs (asc ''name'')) | _ \<Rightarrow> False)"

text \<open>
  The region text of the United States in Chinese: the two regional indicators \<open>U\<close>
  and \<open>S\<close> (two surrogate pairs), a space, and the two characters of the label.
\<close>

definition us_region :: jstr where
  "us_region = [55356, 56826, 55356, 56824, 32, 32654, 22269]"

text \<open>
  For the closed examples: a runtime that knows no letters beyond ASCII, compares
  strings by code units and compiles no pattern, and a node with the four usual fields.
\<close>

fun compare_units :: "jstr \<Rightarrow> jstr \<Rightarrow> int" where
  "compare_units [] [] = 0"
| "compare_units [] (b # bs) = - 1"
| "compare_units (a # as) [] = 1"
| "compare_units (a # as) (b # bs) =
     (if a < b then - 1 else if b < a then 1 else compare_units as bs)"

definition plain_runtime :: "unit runtime" where
  "plain_runtime =
     \<lparr>upper_unicode = map upper_char, lower_unicode = map lower_char,
      normalize_nfkc = (\<lambda>s. s), localeCompare = compare_units,
      regexp = (\<lambda>s. None), rx_test = (\<lambda>r s. False), rx_remove = (\<lambda>r s. s)\<rparr>"

definition sample_node :: "jstr \<Rightarrow> jstr \<Rightarrow> jstr \<Rightarrow> node" where
  "sample_node type name server =
     [(asc ''type'', Str type), (asc ''name'', Str name), (asc ''server'', Str server),
      (asc ''port'', Num 443)]"

section \<open>Properties of the hash\<close>










section \<open>Lemmas about the stages\<close>

lemma processName_shape:
  "\<exists>n. processName rt cfg v = AList.update (asc ''name'') (Str n) (props v)"
  by (auto simp: processName_def)

lemma set_insert_by: "set (insert_by cmp x xs) = insert x (set xs)"
  by (induction xs) auto

lemma set_sort_by: "set (sort_by cmp xs) = set xs"
  by (induction xs) (auto simp: set_insert_by)

lemma set_sort_stage: "set (sort_stage rt cfg xs) = set xs"
  by (simp add: sort_stage_def set_sort_by)

lemma conflict_loop_shape:
  "q \<in> set (conflict_loop cfg nc ps) \<Longrightarrow>
     \<exists>p \<in> set ps. q = p \<or> (\<exists>n. q = AList.update (asc ''name'') (Str n) p)"
proof (induction ps arbitrary: nc)
  case Nil
  then show ?case by simp
next
  case (Cons p ps)
  then show ?case
    by (fastforce simp: Let_def set_name_def split: if_splits)
qed

lemma conflict_stage_shape:
  assumes "q \<in> set (conflict_stage cfg ps)"
  shows "\<exists>p \<in> set ps. q = p \<or> (\<exists>n. q = AList.update (asc ''name'') (Str n) p)"
proof (cases "conflict cfg = asc ''none''")
  case True
  with assms show ?thesis
    by (auto simp: conflict_stage_def)
next
  case False
  with assms have "q \<in> set (conflict_loop cfg (\<lambda>n. 0) ps)"
    by (simp add: conflict_stage_def)
  then show ?thesis
    by (rule conflict_loop_shape)
qed

lemma set_dedupe_loop: "set (dedupe_loop rt cfg seen xs) \<subseteq> set xs"
  by (induction xs arbitrary: seen) (auto split: option.splits)

lemma set_dedupe_stage: "set (dedupe_stage rt cfg xs) \<subseteq> set xs"
  using set_dedupe_loop [of rt cfg "{}" xs] by (simp add: dedupe_stage_def)

lemma sanitize_stage_Arr: "v \<in> set (sanitize_stage proxies) \<Longrightarrow> \<exists>xs. proxies = Arr xs \<and> v \<in> set xs \<and> is_object v"
  by (auto simp: sanitize_stage_def split: jsval.splits)

lemma pipeline_shape:
  assumes "q \<in> set (pipeline rt cfg proxies)"
  shows "\<exists>xs v n. proxies = Arr xs \<and> v \<in> set xs \<and> is_object v
           \<and> q = AList.update (asc ''name'') (Str n) (props v)"
proof -
  let ?kept = "dedupe_stage rt cfg (filter (keep_node rt cfg) (sanitize_stage proxies))"
  from assms obtain p where p: "p \<in> set (map (processName rt cfg) ?kept)"
    and q: "q = p \<or> (\<exists>n. q = AList.update (asc ''name'') (Str n) p)"
    unfolding pipeline_def using conflict_stage_shape set_sort_stage by blast
  from p obtain v where v: "v \<in> set ?kept" and pv: "p = processName rt cfg v"
    by auto
  from v set_dedupe_stage have "v \<in> set (sanitize_stage proxies)"
    by fastforce
  then obtain xs where xs: "proxies = Arr xs" "v \<in> set xs" "is_object v"
    using sanitize_stage_Arr by blast
  from pv obtain n where n: "p = AList.update (asc ''name'') (Str n) (props v)"
    using processName_shape by blast
  with q have "\<exists>m. q = AList.update (asc ''name'') (Str m) (props v)"
    by auto
  with xs show ?thesis
    by blast
qed

lemma update_keeps_order:
  "k \<in> fst ` set al \<Longrightarrow> map fst (AList.update k v al) = map fst al"
  by (induction al) auto



















lemma occurrence_0: "occurrence (x # xs) 0 = 1"
  by (simp add: occurrence_def)

lemma occurrence_Suc:
  "occurrence (x # xs) (Suc i) = (if x = xs ! i then 1 else 0) + occurrence xs i"
  by (simp add: occurrence_def)

lemma occurrence_first:
  assumes "i < length xs"
  shows "occurrence xs i = 1 \<longleftrightarrow> xs ! i \<notin> set (take i xs)"
proof -
  from assms have "take (Suc i) xs = take i xs @ [xs ! i]"
    by (rule take_Suc_conv_app_nth)
  then have "occurrence xs i = count_list (take i xs) (xs ! i) + 1"
    by (simp add: occurrence_def)
  then show ?thesis
    by (simp add: count_list_0_iff)
qed

lemma length_conflict_loop_index:
  "index_mode cfg \<Longrightarrow> length (conflict_loop cfg nc ps) = length ps"
  by (induction ps arbitrary: nc) (auto simp: Let_def index_mode_def)

lemma conflict_loop_index_nth:
  assumes "index_mode cfg"
  shows "i < length ps \<Longrightarrow>
     conflict_loop cfg nc ps ! i
     = numbered (indexPad cfg) (nc (node_name (ps ! i)) + occurrence (map node_name ps) i) (ps ! i)"
proof (induction ps arbitrary: nc i)
  case Nil
  then show ?case by simp
next
  case (Cons p ps)
  let ?nc = "nc (node_name p := nc (node_name p) + 1)"
  show ?case
  proof (cases i)
    case 0
    with assms show ?thesis
      by (simp add: Let_def index_mode_def numbered_def occurrence_0 node_name_def)
  next
    case (Suc j)
    with Cons.prems have j: "j < length ps"
      by simp
    have step: "conflict_loop cfg nc (p # ps) ! Suc j = conflict_loop cfg ?nc ps ! j"
      using assms by (simp add: Let_def index_mode_def node_name_def)
    have cnt: "?nc (node_name (ps ! j)) + occurrence (map node_name ps) j
          = nc (node_name (ps ! j)) + occurrence (map node_name (p # ps)) (Suc j)"
      using j by (simp add: occurrence_Suc)
    have "conflict_loop cfg nc (p # ps) ! i = conflict_loop cfg ?nc ps ! j"
      using step Suc by simp
    also have "\<dots> = numbered (indexPad cfg)
        (?nc (node_name (ps ! j)) + occurrence (map node_name ps) j) (ps ! j)"
      using j by (rule Cons.IH)
    also have "\<dots> = numbered (indexPad cfg)
        (nc (node_name (ps ! j)) + occurrence (map node_name (p # ps)) (Suc j)) (ps ! j)"
      by (simp only: cnt)
    finally show ?thesis
      using Suc by simp
  qed
qed

lemma conflict_stage_index_nth:
  assumes "index_mode cfg" and "i < length ps"
  shows "conflict_stage cfg ps ! i
         = numbered (indexPad cfg) (occurrence (map node_name ps) i) (ps ! i)"
  using assms conflict_loop_index_nth [OF assms(1) assms(2), of "\<lambda>n. 0"]
  by (simp add: conflict_stage_def index_mode_def)

lemma length_conflict_stage_index:
  "index_mode cfg \<Longrightarrow> length (conflict_stage cfg ps) = length ps"
  by (simp add: conflict_stage_def length_conflict_loop_index)

lemma us_rule:
  "map_option (\<lambda>r. (zh r, en r, flag r))
     (find (\<lambda>r. key_test rt (key r) (asc ''US-LosAngeles-01'')) builtInRegions)
   = Some ([32654, 22269], asc ''United States'', [55356, 56826, 55356, 56824])"
  by (simp add: builtInRegions_def key_test_def match_here_def canon_def upper_char_def
      is_space_def word_before_def word_after_def is_word_char_def is_alnum_def asc_def cu_def)

lemma named_recordE:
  assumes "named_record v"
  obtains fs s where "v = Obj fs" and "map_of fs (asc ''name'') = Some (Str s)"
proof -
  from assms obtain fs where v: "v = Obj fs" and "is_string (field fs (asc ''name''))"
    by (cases v) (simp_all add: named_record_def)
  then obtain s where "field fs (asc ''name'') = Str s"
    by (cases "field fs (asc ''name'')") (simp_all add: is_string_def)
  then have "map_of fs (asc ''name'') = Some (Str s)"
    by (cases "map_of fs (asc ''name'')") (simp_all add: field_def)
  with v show thesis
    by (rule that)
qed

lemmas option_defs =
  parse_config_def bind_def truthy_def parseList_def parseBool_def lower_or_def
  toLowerCase_def toRegex_def int_or_def is_ascii_def asc_def lower_char_def

lemma parse_config_empty: "parse_config rt Map.empty = Inr default_config"
  by (simp add: option_defs default_config_def)



lemma passthrough_default: "passthrough default_config"
  by (simp add: passthrough_def default_config_def positive_def)

lemma index_mode_default: "index_mode default_config"
  by (simp add: index_mode_def default_config_def asc_def)

lemma new_name_passthrough:
  "passthrough cfg \<Longrightarrow> new_name rt cfg v = safeStr (get v (asc ''name''))"
  by (simp add: passthrough_def new_name_def Let_def cleanRegionFromName_def finish_name_def)

lemma processName_passthrough:
  assumes "passthrough cfg" and "named_record v"
  shows "processName rt cfg v = props v"
proof -
  from assms(2) obtain fs s where v: "v = Obj fs" and s: "map_of fs (asc ''name'') = Some (Str s)"
    by (rule named_recordE)
  then have "safeStr (get v (asc ''name'')) = s"
    by (simp add: get_def field_def safeStr_def)
  with assms(1) v s show ?thesis
    by (simp add: processName_def new_name_passthrough update_triv)
qed

lemma keep_node_passthrough: "passthrough cfg \<Longrightarrow> keep_node rt cfg v"
  by (simp add: passthrough_def keep_node_def)

lemma named_record_object: "named_record v \<Longrightarrow> is_object v"
  by (cases v) (simp_all add: named_record_def is_object_def)

lemma pipeline_passthrough:
  assumes "passthrough cfg" and "list_all named_record vs"
  shows "pipeline rt cfg (Arr vs) = conflict_stage cfg (map props vs)"
proof -
  from assms(2) have "filter is_object vs = vs"
    by (auto simp: list_all_iff named_record_object intro: filter_True)
  then have sane: "sanitize_stage (Arr vs) = vs"
    by (simp add: sanitize_stage_def)
  from assms(1) have kept: "filter (keep_node rt cfg) vs = vs"
    by (simp add: keep_node_passthrough)
  from assms(1) have dd: "dedupe_stage rt cfg vs = vs"
    by (simp add: passthrough_def dedupe_stage_def)
  from assms have named: "map (processName rt cfg) vs = map props vs"
    by (auto simp: list_all_iff processName_passthrough)
  from assms(1) have sorted: "sort_stage rt cfg (map props vs) = map props vs"
    by (simp add: passthrough_def sort_stage_def)
  show ?thesis
    unfolding pipeline_def sane kept dd named sorted ..
qed

lemma operator_passthrough:
  assumes "parse_config rt args = Inr cfg" and "passthrough cfg" and "list_all named_record vs"
  shows "operator rt args (Arr vs) = Inr (conflict_stage cfg (map props vs))"
  using assms by (simp add: operator_def bind_def pipeline_passthrough)

lemma numbered_first: "numbered pad 1 p = p"
  by (simp add: numbered_def)

lemma named_record_sample: "named_record (Obj (sample_node t n s))"
  by (simp add: named_record_def sample_node_def field_def is_string_def asc_def)

lemma node_name_sample: "node_name (sample_node t n s) = n"
  by (simp add: node_name_def sample_node_def field_def safeStr_def asc_def)

lemma set_name_sample: "set_name (sample_node t n s) m = sample_node t m s"
  by (simp add: set_name_def sample_node_def asc_def)

lemma index_suffix_2: "index_suffix (Fin 2) (Suc (Suc 0)) = asc ''02''"
  by (simp add: index_suffix_def math_max_def padStart_def toString10.simps asc_def)


lemma conflict_default_pair:
  "conflict_stage default_config [sample_node t n s, sample_node t' n s']
   = [sample_node t n s, sample_node t' (n @ asc '' 02'') s']"
proof -
  have pad: "indexPad (default_config :: 'a config) = Fin 2"
    and c: "conflict (default_config :: 'a config) = asc ''index''"
    by (simp_all add: default_config_def)
  have ne: "asc ''index'' \<noteq> asc ''none''" "asc ''index'' \<noteq> asc ''drop''"
    "asc ''index'' \<noteq> asc ''hash''"
    by (simp_all add: asc_def)
  have name: "\<And>t n s. safeStr (field (sample_node t n s) (asc ''name'')) = n"
    using node_name_sample by (simp add: node_name_def)
  have "asc '' '' @ asc ''02'' = asc '' 02''"
    by (simp add: asc_def)
  then show ?thesis
    by (simp add: conflict_stage_def Let_def pad c ne name index_suffix_2 set_name_sample)
qed


section \<open>The passthrough law\<close>

lemma input_name_sample: "input_name (Obj (sample_node t n s)) = n"
  using node_name_sample [of t n s] by (simp add: input_name_def node_name_def get_def)

text \<open>
  Claim C3, as amended. With no prefix and no template, and the other options as they
  are by default, every node whose name did not occur earlier in the list comes out as
  it went in, its name included; the output has one node per input node. (A node whose
  name occurred before gets the suffix of the conflict stage, so the law as first
  stated fails on a list with a repeated name.)
\<close>

theorem passthrough_keeps_first_occurrences:
  assumes "parse_config rt args = Inr cfg" and "passthrough cfg" and "index_mode cfg"
    and "list_all named_record vs"
  shows "\<exists>out. operator rt args (Arr vs) = Inr out \<and> length out = length vs
           \<and> (\<forall>i < length vs.
                 map input_name vs ! i \<notin> set (take i (map input_name vs))
                 \<longrightarrow> Obj (out ! i) = vs ! i)"
proof -
  let ?out = "conflict_stage cfg (map props vs)"
  have run: "operator rt args (Arr vs) = Inr ?out"
    using assms(1,2,4) by (rule operator_passthrough)
  have len: "length ?out = length vs"
    using assms(3) by (simp add: length_conflict_stage_index)
  have names: "map node_name (map props vs) = map input_name vs"
    by (simp add: node_name_def input_name_def get_def)
  have "Obj (?out ! i) = vs ! i"
    if i: "i < length vs" and first: "map input_name vs ! i \<notin> set (take i (map input_name vs))"
    for i
  proof -
    from i have "i < length (map input_name vs)"
      by simp
    from occurrence_first [OF this] first have one: "occurrence (map input_name vs) i = 1"
      by blast
    from i have "i < length (map props vs)"
      by simp
    with assms(3) have "?out ! i
        = numbered (indexPad cfg) (occurrence (map node_name (map props vs)) i) (map props vs ! i)"
      by (rule conflict_stage_index_nth)
    also have "\<dots> = map props vs ! i"
      unfolding names one by (rule numbered_first)
    finally have "?out ! i = props (vs ! i)"
      using i by simp
    moreover from assms(4) i have "named_record (vs ! i)"
      by (simp add: list_all_length)
    then have "Obj (props (vs ! i)) = vs ! i"
      by (rule named_recordE) simp
    ultimately show ?thesis
      by simp
  qed
  with run len show ?thesis
    by blast
qed

lemma two_HK:
  "operator rt Map.empty
     (Arr [Obj (sample_node (asc ''ss'') (asc ''HK'') (asc ''a'')),
           Obj (sample_node (asc ''ss'') (asc ''HK'') (asc ''b''))])
   = Inr [sample_node (asc ''ss'') (asc ''HK'') (asc ''a''),
          sample_node (asc ''ss'') (asc ''HK 02'') (asc ''b'')]"
proof -
  have "asc ''HK'' @ asc '' 02'' = asc ''HK 02''"
    by (simp add: asc_def)
  then show ?thesis
    by (simp add: operator_passthrough [OF parse_config_empty passthrough_default]
        named_record_sample conflict_default_pair)
qed

text \<open>
  Two nodes named \<open>HK\<close> under the default options: the second one comes out as
  \<open>HK 02\<close>.
\<close>

theorem passthrough_identity_counterexample:
  "operator plain_runtime Map.empty
     (Arr [Obj (sample_node (asc ''ss'') (asc ''HK'') (asc ''a'')),
           Obj (sample_node (asc ''ss'') (asc ''HK'') (asc ''b''))])
   = Inr [sample_node (asc ''ss'') (asc ''HK'') (asc ''a''),
          sample_node (asc ''ss'') (asc ''HK 02'') (asc ''b'')]
   \<and> node_name (sample_node (asc ''ss'') (asc ''HK 02'') (asc ''b''))
     \<noteq> input_name (Obj (sample_node (asc ''ss'') (asc ''HK'') (asc ''b'')))"
  by (simp add: two_HK node_name_sample input_name_sample) (simp add: asc_def)

theorem passthrough_keeps_first_occurrences_witness:
  "parse_config plain_runtime Map.empty = Inr default_config
   \<and> passthrough (default_config :: unit config) \<and> index_mode (default_config :: unit config)
   \<and> list_all named_record
        [Obj (sample_node (asc ''ss'') (asc ''HK'') (asc ''a'')),
         Obj (sample_node (asc ''ss'') (asc ''SG'') (asc ''b''))]
   \<and> (\<exists>out. operator plain_runtime Map.empty
          (Arr [Obj (sample_node (asc ''ss'') (asc ''HK'') (asc ''a'')),
                Obj (sample_node (asc ''ss'') (asc ''SG'') (asc ''b''))]) = Inr out
        \<and> out = [sample_node (asc ''ss'') (asc ''HK'') (asc ''a''),
                  sample_node (asc ''ss'') (asc ''SG'') (asc ''b'')])"
proof -
  let ?vs = "[Obj (sample_node (asc ''ss'') (asc ''HK'') (asc ''a'')),
              Obj (sample_node (asc ''ss'') (asc ''SG'') (asc ''b''))]"
  have a: "parse_config plain_runtime Map.empty = Inr default_config"
    by (rule parse_config_empty)
  have b: "passthrough (default_config :: unit config)"
    by (rule passthrough_default)
  have c: "index_mode (default_config :: unit config)"
    by (rule index_mode_default)
  have d: "list_all named_record ?vs"
    by (simp add: named_record_sample)
  have names: "map input_name ?vs = [asc ''HK'', asc ''SG'']"
    by (simp add: input_name_sample)
  have ne: "asc ''SG'' \<noteq> asc ''HK''"
    by (simp add: asc_def)
  from passthrough_keeps_first_occurrences [OF a b c d]
  obtain out where run: "operator plain_runtime Map.empty (Arr ?vs) = Inr out"
    and len: "length out = length ?vs"
    and same: "\<forall>i < length ?vs. map input_name ?vs ! i \<notin> set (take i (map input_name ?vs))
                 \<longrightarrow> Obj (out ! i) = ?vs ! i"
    by blast
  from same [rule_format, of 0] have o0: "out ! 0 = sample_node (asc ''ss'') (asc ''HK'') (asc ''a'')"
    by (simp add: names)
  from same [rule_format, of 1] ne
  have o1: "out ! 1 = sample_node (asc ''ss'') (asc ''SG'') (asc ''b'')"
    by (simp add: input_name_sample)
  from len o0 o1 have "out = [sample_node (asc ''ss'') (asc ''HK'') (asc ''a''),
                  sample_node (asc ''ss'') (asc ''SG'') (asc ''b'')]"
    by (cases out; cases "tl out") (auto simp: nth_Cons')
  with run a b c d show ?thesis
    by blast
qed

section \<open>Numbering repeated names\<close>








section \<open>Numbered names can collide\<close>

text \<open>
  Claim C8. Numbering does not make the names pairwise distinct: the count is kept per
  name as it stood before the suffix, so of the nodes \<open>HK\<close>, \<open>HK\<close>, \<open>HK 02\<close> the second
  becomes \<open>HK 02\<close>, the name the third one has and keeps.
\<close>

theorem index_conflict_not_distinct:
  "operator (rt :: 'r runtime) Map.empty
     (Arr [Obj (sample_node (asc ''ss'') (asc ''HK'') (asc ''a'')),
           Obj (sample_node (asc ''ss'') (asc ''HK'') (asc ''b'')),
           Obj (sample_node (asc ''ss'') (asc ''HK 02'') (asc ''c''))])
   = Inr [sample_node (asc ''ss'') (asc ''HK'') (asc ''a''),
          sample_node (asc ''ss'') (asc ''HK 02'') (asc ''b''),
          sample_node (asc ''ss'') (asc ''HK 02'') (asc ''c'')]
   \<and> \<not> distinct (map node_name
          [sample_node (asc ''ss'') (asc ''HK'') (asc ''a''),
           sample_node (asc ''ss'') (asc ''HK 02'') (asc ''b''),
           sample_node (asc ''ss'') (asc ''HK 02'') (asc ''c'')])"
proof -
  let ?vs = "[Obj (sample_node (asc ''ss'') (asc ''HK'') (asc ''a'')),
           Obj (sample_node (asc ''ss'') (asc ''HK'') (asc ''b'')),
           Obj (sample_node (asc ''ss'') (asc ''HK 02'') (asc ''c''))]"
  have rec: "list_all named_record ?vs"
    by (simp add: named_record_sample)
  have run: "operator rt Map.empty (Arr ?vs)
      = Inr (conflict_stage (default_config :: 'r config) (map props ?vs))"
    using parse_config_empty passthrough_default rec by (rule operator_passthrough)
  have cfg: "indexPad (default_config :: 'r config) = Fin 2"
    "conflict (default_config :: 'r config) = asc ''index''"
    by (simp_all add: default_config_def)
  have ne: "asc ''index'' \<noteq> asc ''none''" "asc ''index'' \<noteq> asc ''drop''"
    "asc ''index'' \<noteq> asc ''hash''" "asc ''HK 02'' \<noteq> asc ''HK''"
    by (simp_all add: asc_def)
  have name: "\<And>t n s. safeStr (field (sample_node t n s) (asc ''name'')) = n"
    using node_name_sample by (simp add: node_name_def)
  have s: "asc ''HK'' @ asc '' '' @ asc ''02'' = asc ''HK 02''"
    by (simp add: asc_def)
  have "conflict_stage (default_config :: 'r config) (map props ?vs)
      = [sample_node (asc ''ss'') (asc ''HK'') (asc ''a''),
          sample_node (asc ''ss'') (asc ''HK 02'') (asc ''b''),
          sample_node (asc ''ss'') (asc ''HK 02'') (asc ''c'')]"
    by (simp add: conflict_stage_def Let_def cfg ne name index_suffix_2 set_name_sample s)
  with run show ?thesis
    by (simp add: node_name_sample)
qed

section \<open>Fields other than the name\<close>

lemma operator_Inr:
  "operator rt args proxies = Inr out
   \<longleftrightarrow> (\<exists>cfg. parse_config rt args = Inr cfg \<and> out = pipeline rt cfg proxies)"
  by (cases "parse_config rt args") (auto simp: operator_def bind_def)

text \<open>
  Claim C7. A node of the output is a node of the input with its \<open>name\<close> set: every
  other field is there with the value it had, in the same place, and no other field
  is new. (A record that had no \<open>name\<close> gets one, at the end.)
\<close>

theorem output_node_frame:
  assumes "operator rt args proxies = Inr out" and "q \<in> set out"
  shows "\<exists>vs v n. proxies = Arr vs \<and> v \<in> set vs \<and> is_object v
           \<and> q = AList.update (asc ''name'') (Str n) (props v)
           \<and> (\<forall>k. k \<noteq> asc ''name'' \<longrightarrow> map_of q k = map_of (props v) k)
           \<and> fst ` set q = insert (asc ''name'') (fst ` set (props v))
           \<and> (asc ''name'' \<in> fst ` set (props v) \<longrightarrow> map fst q = map fst (props v))"
proof -
  from assms obtain cfg where "q \<in> set (pipeline rt cfg proxies)"
    by (auto simp: operator_Inr)
  then obtain vs v n where v: "proxies = Arr vs" "v \<in> set vs" "is_object v"
    and q: "q = AList.update (asc ''name'') (Str n) (props v)"
    using pipeline_shape by blast
  have "\<forall>k. k \<noteq> asc ''name'' \<longrightarrow> map_of q k = map_of (props v) k"
    by (simp add: q update_conv')
  moreover have "fst ` set q = insert (asc ''name'') (fst ` set (props v))"
    by (simp add: q dom_update)
  moreover have "asc ''name'' \<in> fst ` set (props v) \<longrightarrow> map fst q = map fst (props v)"
    by (simp add: q update_keeps_order)
  ultimately show ?thesis
    using v q by blast
qed

theorem output_node_frame_witness:
  "operator plain_runtime Map.empty (Arr [Obj (sample_node (asc ''ss'') (asc ''HK'') (asc ''a''))])
     = Inr [sample_node (asc ''ss'') (asc ''HK'') (asc ''a'')]
   \<and> sample_node (asc ''ss'') (asc ''HK'') (asc ''a'')
       \<in> set [sample_node (asc ''ss'') (asc ''HK'') (asc ''a'')]
   \<and> (\<exists>v n. v \<in> set [Obj (sample_node (asc ''ss'') (asc ''HK'') (asc ''a''))]
         \<and> sample_node (asc ''ss'') (asc ''HK'') (asc ''a'')
           = AList.update (asc ''name'') (Str n) (props v)
         \<and> map fst (sample_node (asc ''ss'') (asc ''HK'') (asc ''a'')) = map fst (props v))"
proof -
  let ?a = "sample_node (asc ''ss'') (asc ''HK'') (asc ''a'')"
  have one: "conflict_stage (default_config :: unit config) [?a] = [?a]"
    by (simp add: conflict_stage_def Let_def)
  have run: "operator plain_runtime Map.empty (Arr [Obj ?a]) = Inr [?a]"
    by (simp add: operator_passthrough [OF parse_config_empty passthrough_default]
        named_record_sample one)
  have mem: "?a \<in> set [?a]"
    by simp
  have named: "asc ''name'' \<in> fst ` set ?a"
    by (simp add: sample_node_def)
  from output_node_frame [OF run mem] named
  have "\<exists>v n. v \<in> set [Obj ?a] \<and> ?a = AList.update (asc ''name'') (Str n) (props v)
         \<and> map fst ?a = map fst (props v)"
    by auto
  with run mem show ?thesis
    by blast
qed

section \<open>Deduplication by address\<close>







section \<open>An argument that is no array\<close>

lemma pipeline_not_array: "\<not> is_array proxies \<Longrightarrow> pipeline rt cfg proxies = []"
  by (cases proxies)
     (simp_all add: is_array_def pipeline_def sanitize_stage_def dedupe_stage_def
        sort_stage_def conflict_stage_def)

text \<open>
  Claim C9. A \<open>proxies\<close> that is not an array is taken for the empty list, under every
  option bag: the run is the run on \<open>[]\<close>. Its result is the empty list, with no options
  and with any options that are read without an error (an error there is raised before
  \<open>proxies\<close> is looked at, whatever \<open>proxies\<close> is; it is the subject of claim C1).
\<close>

theorem non_array_gives_empty_list:
  assumes "\<not> is_array proxies"
  shows "operator rt args proxies = operator rt args (Arr [])
         \<and> operator rt Map.empty proxies = Inr []
         \<and> (parse_config rt args = Inr cfg \<longrightarrow> operator rt args proxies = Inr [])"
proof -
  have "pipeline rt c proxies = pipeline rt c (Arr [])" for c :: "'a config"
    using assms
    by (simp add: pipeline_not_array)
       (simp add: pipeline_def sanitize_stage_def dedupe_stage_def sort_stage_def
          conflict_stage_def)
  then have "operator rt args proxies = operator rt args (Arr [])"
    by (simp add: operator_def)
  with assms show ?thesis
    by (simp add: operator_def bind_def parse_config_empty pipeline_not_array)
qed

theorem non_array_gives_empty_list_witness:
  "\<not> is_array Null \<and> operator plain_runtime Map.empty Null = Inr []
   \<and> parse_config plain_runtime [''dedupe'' \<mapsto> asc ''addr'']
       = Inr ((default_config :: unit config)\<lparr>dedupe := asc ''addr''\<rparr>)
   \<and> operator plain_runtime [''dedupe'' \<mapsto> asc ''addr''] (Str (asc ''HK'')) = Inr []"
proof -
  have a: "\<not> is_array Null" and b: "\<not> is_array (Str (asc ''HK''))"
    by (simp_all add: is_array_def)
  have cfg: "parse_config plain_runtime [''dedupe'' \<mapsto> asc ''addr'']
       = Inr ((default_config :: unit config)\<lparr>dedupe := asc ''addr''\<rparr>)"
    by (simp add: option_defs default_config_def)
  from non_array_gives_empty_list [OF a, of plain_runtime Map.empty "default_config"]
  have none: "operator plain_runtime Map.empty Null = Inr []"
    by (elim conjE)
  from non_array_gives_empty_list [OF b, of plain_runtime "[''dedupe'' \<mapsto> asc ''addr'']"
      "(default_config :: unit config)\<lparr>dedupe := asc ''addr''\<rparr>"] cfg
  have some: "operator plain_runtime [''dedupe'' \<mapsto> asc ''addr''] (Str (asc ''HK'')) = Inr []"
    by blast
  from a none cfg some show ?thesis
    by (intro conjI)
qed

section \<open>The protocol type is compared in upper case\<close>






section \<open>Option values that raise\<close>

lemma decodeURI_percent: "decodeURI (asc ''%'') = Inl URIError"
  by (simp add: decodeURI_def decode_from.simps decode_step_def octet_at_def asc_def)

text \<open>
  The same text given as \<open>regexInclude\<close> is harmless: \<open>toRegex\<close> decodes and compiles
  inside \<open>try\<close>.
\<close>

lemma toRegex_percent: "toRegex rt (Some (asc ''%'')) = None"
  by (simp add: toRegex_def truthy_def decodeURI_percent)

lemma regexInclude_percent:
  "parse_config rt [''regexInclude'' \<mapsto> asc ''%''] = Inr default_config"
  using toRegex_percent [of rt] by (simp add: option_defs default_config_def)

text \<open>
  A \<open>regionMap\<close> entry whose pattern the runtime cannot compile ends the run too:
  \<open>new RegExp\<close> is called outside any \<open>try\<close>.
\<close>

lemma regionMap_uncompilable:
  assumes "regexp rt (asc ''('') = None"
  shows "operator rt [''regionMap'' \<mapsto> asc ''(:X''] proxies = Inl SyntaxError"
proof -
  have ne: "asc ''(:X'' \<noteq> []"
    by (simp add: asc_def)
  have "decodeURI (asc ''(:X'') = Inr (asc ''(:X'')"
    by (simp add: decodeURI_def decode_from.simps decode_step_def asc_def)
  then have pl: "parseList (Some (asc ''(:X'')) = Inr [asc ''(:X'']"
    by (simp add: parseList_def truthy_def bind_def ne)
       (simp add: asc_def trim_def is_space_def)
  have "split_on (\<lambda>c. c = 58) (asc ''(:X'') = [asc ''('', asc ''X'']"
    by (simp add: asc_def)
  then have ur: "user_regions rt [asc ''(:X''] = Inl SyntaxError"
    using assms by (simp add: nth_or_def Let_def) (simp add: asc_def)
  have none: "parseList None = Inr []"
    by (simp add: parseList_def truthy_def)
  show ?thesis
    by (simp add: operator_def parse_config_def truthy_def bind_def ne pl ur none
        del: user_regions.simps)
qed

text \<open>
  Claim C1 says that no option value makes the run raise. The code does raise: the
  prefix is decoded with \<open>decodeURI\<close> in the first statement of \<open>operator\<close>, outside any
  \<open>try\<close>, and \<open>%\<close> is no escape. Whatever the list is, the run ends with URIError.
\<close>

theorem malformed_prefix_raises:
  "operator rt [''name'' \<mapsto> asc ''%''] proxies = Inl URIError"
  by (simp add: operator_def parse_config_def truthy_def bind_def decodeURI_percent)
     (simp add: asc_def)

text \<open>So does a prefix that ends in a percent sign, such as \<open>100%\<close>.\<close>

lemma percent_sign_prefix_raises:
  "operator rt [''name'' \<mapsto> asc ''100%''] proxies = Inl URIError"
proof -
  have "decodeURI (asc ''100%'') = Inl URIError"
    by (simp add: decodeURI_def decode_from.simps decode_step_def octet_at_def asc_def)
  moreover have "asc ''100%'' \<noteq> []"
    by (simp add: asc_def)
  ultimately show ?thesis
    by (simp add: operator_def parse_config_def truthy_def bind_def)
qed

section \<open>The region text\<close>

lemma buildRegionStr_us:
  assumes "addFlag cfg" and "locLang cfg = asc ''zh''" and "userRegions cfg = []"
  shows "buildRegionStr rt cfg (asc ''US-LosAngeles-01'') = us_region"
proof -
  from us_rule [of rt] obtain r
    where r: "find (\<lambda>r. key_test rt (key r) (asc ''US-LosAngeles-01'')) builtInRegions = Some r"
      and zh: "zh r = [32654, 22269]" and fl: "flag r = [55356, 56826, 55356, 56824]"
    by (cases "find (\<lambda>r. key_test rt (key r) (asc ''US-LosAngeles-01'')) builtInRegions") auto
  have ne: "asc ''zh'' \<noteq> asc ''flag''" "asc ''zh'' \<noteq> asc ''en''"
    by (simp_all add: asc_def)
  have sp: "asc '' '' = [32]"
    by (simp add: asc_def)
  from assms r show ?thesis
    by (simp add: buildRegionStr_def detectRegion_def Let_def ne zh fl sp us_region_def)
qed

lemma decodeURI_Nil: "decodeURI [] = Inr []"
  by (simp add: decodeURI_def decode_from.simps)

lemma join_prefixed:
  "\<exists>rest. join s ([a, b] @ (if t \<noteq> [] then [t] else []) @ [n]) = a @ s @ b @ s @ rest"
  by simp

lemma field_update_name: "field (AList.update k v fs) k = v"
  by (simp add: field_def update_conv')

lemma conflict_stage_single: "conflict_stage cfg [q] = [q]"
  by (simp add: conflict_stage_def Let_def)

text \<open>
  Claim C2, as amended. A node named \<open>US-LosAngeles-01\<close>, processed with \<open>addFlag=on\<close>,
  \<open>locLang=zh\<close> and a prefix that is not empty (no template, the other options at
  their defaults), gets a name that starts with the region text, then the separator,
  the prefix and the separator again. (Without a prefix and without a template the
  name is left as it is: the region text is computed and not used.)
\<close>

theorem region_text_leads_prefixed_name:
  assumes "decodeURI prefix_option = Inr prefix_text" and "prefix_text \<noteq> []"
    and "is_object v" and "input_name v = asc ''US-LosAngeles-01''"
  shows "\<exists>q rest.
           operator (rt :: 'r runtime)
             [''name'' \<mapsto> prefix_option, ''addFlag'' \<mapsto> asc ''on'', ''locLang'' \<mapsto> asc ''zh'']
             (Arr [v]) = Inr [q]
           \<and> field q (asc ''name'')
             = Str (us_region @ asc '' - '' @ prefix_text @ asc '' - '' @ rest)"
proof -
  let ?args = "[''name'' \<mapsto> prefix_option, ''addFlag'' \<mapsto> asc ''on'', ''locLang'' \<mapsto> asc ''zh'']"
  let ?cfg = "(default_config :: 'r config)\<lparr>subName := prefix_text, addFlag := True\<rparr>"
  from assms(1,2) have "prefix_option \<noteq> []"
    by (auto simp: decodeURI_Nil)
  with assms(1) have cfg: "parse_config (rt :: 'r runtime) ?args = Inr ?cfg"
    by (simp add: option_defs default_config_def)
  have region: "buildRegionStr rt ?cfg (asc ''US-LosAngeles-01'') = us_region"
    by (rule buildRegionStr_us) (simp_all add: default_config_def)
  have us: "us_region \<noteq> []"
    by (simp add: us_region_def)
  let ?t = "buildTypeDisplay rt ?cfg (toUpperCase rt (safeStr (get v (asc ''type''))))"
  from join_prefixed [of "asc '' - ''" us_region prefix_text ?t "asc ''US-LosAngeles-01''"]
  obtain rest where rest: "join (asc '' - '')
      ([us_region, prefix_text] @ (if ?t \<noteq> [] then [?t] else []) @ [asc ''US-LosAngeles-01''])
      = us_region @ asc '' - '' @ prefix_text @ asc '' - '' @ rest"
    by blast
  have parts: "name_parts ?cfg ?t us_region (asc ''US-LosAngeles-01'')
      = [us_region, prefix_text] @ (if ?t \<noteq> [] then [?t] else []) @ [asc ''US-LosAngeles-01'']"
    by (simp add: name_parts_def default_config_def us)
  have opts: "subName ?cfg = prefix_text" "template ?cfg = []" "includeType ?cfg"
    "sep ?cfg = asc '' - ''" "\<not> removeRegionName ?cfg" "\<not> enableRemoveEmoji ?cfg"
    "\<not> enableSanitize ?cfg" "\<not> enableTrimSpaces ?cfg" "\<not> enableNormalize ?cfg"
    "\<not> enableCjkSpace ?cfg" "\<not> positive (maxLen ?cfg)"
    by (simp_all add: default_config_def positive_def)
  from assms(4) have orig: "safeStr (get v (asc ''name'')) = asc ''US-LosAngeles-01''"
    by (simp add: input_name_def)
  have name: "new_name rt ?cfg v = us_region @ asc '' - '' @ prefix_text @ asc '' - '' @ rest"
    unfolding new_name_def Let_def orig cleanRegionFromName_def shouldFormat_def finish_name_def
    using assms(2) by (simp only: opts region parts rest if_True if_False simp_thms)
  let ?q = "processName rt ?cfg v"
  have q: "field ?q (asc ''name'')
      = Str (us_region @ asc '' - '' @ prefix_text @ asc '' - '' @ rest)"
    by (simp add: processName_def field_update_name name)
  have san: "sanitize_stage (Arr [v]) = [v]"
    using assms(3) by (simp add: sanitize_stage_def)
  have keep: "filter (keep_node rt ?cfg) [v] = [v]"
    by (simp add: keep_node_def default_config_def)
  have dd: "dedupe_stage rt ?cfg [v] = [v]"
    by (simp add: dedupe_stage_def default_config_def)
  have srt: "sort_stage rt ?cfg [?q] = [?q]"
    by (simp add: sort_stage_def default_config_def)
  have "pipeline rt ?cfg (Arr [v]) = [?q]"
    unfolding pipeline_def san keep dd list.map srt by (rule conflict_stage_single)
  with cfg have "operator rt ?args (Arr [v]) = Inr [?q]"
    by (simp add: operator_def bind_def)
  with q show ?thesis
    by blast
qed


lemma decodeURI_MySub: "decodeURI (asc ''MySub'') = Inr (asc ''MySub'')"
  by (simp add: decodeURI_def decode_from.simps decode_step_def asc_def)

lemma typeDisplay_ss:
  "buildTypeDisplay rt ((default_config :: 'r config)\<lparr>subName := n, addFlag := True\<rparr>)
     (toUpperCase rt (asc ''ss'')) = asc ''[SS]''"
  by (simp add: buildTypeDisplay_def default_config_def typeAbbr_builtin_def toUpperCase_def
      is_ascii_def upper_char_def asc_def Let_def)

theorem region_text_leads_prefixed_name_witness:
  "decodeURI (asc ''MySub'') = Inr (asc ''MySub'') \<and> asc ''MySub'' \<noteq> []
   \<and> is_object (Obj (sample_node (asc ''ss'') (asc ''US-LosAngeles-01'') (asc ''a'')))
   \<and> input_name (Obj (sample_node (asc ''ss'') (asc ''US-LosAngeles-01'') (asc ''a'')))
       = asc ''US-LosAngeles-01''
   \<and> (\<exists>q rest.
         operator plain_runtime
           [''name'' \<mapsto> asc ''MySub'', ''addFlag'' \<mapsto> asc ''on'', ''locLang'' \<mapsto> asc ''zh'']
           (Arr [Obj (sample_node (asc ''ss'') (asc ''US-LosAngeles-01'') (asc ''a''))]) = Inr [q]
         \<and> field q (asc ''name'')
           = Str (us_region @ asc '' - '' @ asc ''MySub'' @ asc '' - '' @ rest))"
proof -
  let ?v = "Obj (sample_node (asc ''ss'') (asc ''US-LosAngeles-01'') (asc ''a''))"
  have ne: "asc ''MySub'' \<noteq> []"
    by (simp add: asc_def)
  have obj: "is_object ?v"
    by (simp add: is_object_def)
  have nm: "input_name ?v = asc ''US-LosAngeles-01''"
    by (rule input_name_sample)
  from region_text_leads_prefixed_name [OF decodeURI_MySub ne obj nm, of plain_runtime]
    decodeURI_MySub ne obj nm
  show ?thesis
    by blast
qed

text \<open>
  With \<open>addFlag=on\<close> and \<open>locLang=zh\<close> alone the node comes out under the name it had,
  which does not hold the region text.
\<close>

theorem region_text_unused_counterexample:
  "operator plain_runtime [''addFlag'' \<mapsto> asc ''on'', ''locLang'' \<mapsto> asc ''zh'']
     (Arr [Obj (sample_node (asc ''ss'') (asc ''US-LosAngeles-01'') (asc ''a''))])
   = Inr [sample_node (asc ''ss'') (asc ''US-LosAngeles-01'') (asc ''a'')]
   \<and> \<not> includes_str (asc ''US-LosAngeles-01'') us_region"
proof -
  let ?cfg = "(default_config :: unit config)\<lparr>addFlag := True\<rparr>"
  have cfg: "parse_config plain_runtime [''addFlag'' \<mapsto> asc ''on'', ''locLang'' \<mapsto> asc ''zh'']
      = Inr ?cfg"
    by (simp add: option_defs default_config_def)
  have pass: "passthrough ?cfg"
    by (simp add: passthrough_def default_config_def positive_def)
  have rec: "list_all named_record [Obj (sample_node (asc ''ss'') (asc ''US-LosAngeles-01'') (asc ''a''))]"
    by (simp add: named_record_sample)
  have "operator plain_runtime [''addFlag'' \<mapsto> asc ''on'', ''locLang'' \<mapsto> asc ''zh'']
     (Arr [Obj (sample_node (asc ''ss'') (asc ''US-LosAngeles-01'') (asc ''a''))])
   = Inr [sample_node (asc ''ss'') (asc ''US-LosAngeles-01'') (asc ''a'')]"
    by (simp add: operator_passthrough [OF cfg pass rec] conflict_stage_single)
  moreover have "\<not> includes_str (asc ''US-LosAngeles-01'') us_region"
    by (simp add: asc_def us_region_def)
  ultimately show ?thesis
    by blast
qed

text \<open>The name the example of the script's header gives this node.\<close>

lemma header_example_name:
  "operator (rt :: 'r runtime)
     [''name'' \<mapsto> asc ''MySub'', ''addFlag'' \<mapsto> asc ''on'', ''locLang'' \<mapsto> asc ''zh'']
     (Arr [Obj (sample_node (asc ''ss'') (asc ''US-LosAngeles-01'') (asc ''a''))])
   = Inr [sample_node (asc ''ss'')
            (us_region @ asc '' - MySub - [SS] - US-LosAngeles-01'') (asc ''a'')]"
proof -
  let ?v = "Obj (sample_node (asc ''ss'') (asc ''US-LosAngeles-01'') (asc ''a''))"
  let ?args = "[''name'' \<mapsto> asc ''MySub'', ''addFlag'' \<mapsto> asc ''on'', ''locLang'' \<mapsto> asc ''zh'']"
  let ?cfg = "(default_config :: 'r config)\<lparr>subName := asc ''MySub'', addFlag := True\<rparr>"
  have ne: "asc ''MySub'' \<noteq> []"
    by (simp add: asc_def)
  have cfg: "parse_config rt ?args = Inr ?cfg"
    using decodeURI_MySub by (simp add: option_defs default_config_def ne)
  have region: "buildRegionStr rt ?cfg (asc ''US-LosAngeles-01'') = us_region"
    by (rule buildRegionStr_us) (simp_all add: default_config_def)
  have us: "us_region \<noteq> []"
    by (simp add: us_region_def)
  have ty: "safeStr (get ?v (asc ''type'')) = asc ''ss''"
    by (simp add: get_def field_def sample_node_def safeStr_def asc_def)
  have orig: "safeStr (get ?v (asc ''name'')) = asc ''US-LosAngeles-01''"
    using input_name_sample by (simp add: input_name_def)
  have opts: "subName ?cfg = asc ''MySub''" "template ?cfg = []" "includeType ?cfg"
    "sep ?cfg = asc '' - ''" "\<not> removeRegionName ?cfg" "\<not> enableRemoveEmoji ?cfg"
    "\<not> enableSanitize ?cfg" "\<not> enableTrimSpaces ?cfg" "\<not> enableNormalize ?cfg"
    "\<not> enableCjkSpace ?cfg" "\<not> positive (maxLen ?cfg)" "pos ?cfg = asc ''before''"
    by (simp_all add: default_config_def positive_def)
  have t: "asc ''[SS]'' \<noteq> []"
    by (simp add: asc_def)
  have parts: "join (asc '' - '')
      (name_parts ?cfg (asc ''[SS]'') us_region (asc ''US-LosAngeles-01''))
      = us_region @ asc '' - MySub - [SS] - US-LosAngeles-01''"
    by (simp add: name_parts_def opts us t) (simp add: asc_def)
  have name: "new_name rt ?cfg ?v = us_region @ asc '' - MySub - [SS] - US-LosAngeles-01''"
    unfolding new_name_def Let_def orig ty typeDisplay_ss cleanRegionFromName_def
      shouldFormat_def finish_name_def
    using ne by (simp only: opts region parts if_True if_False simp_thms)
  have q: "processName rt ?cfg ?v
      = sample_node (asc ''ss'') (us_region @ asc '' - MySub - [SS] - US-LosAngeles-01'') (asc ''a'')"
    by (simp add: processName_def name) (simp add: sample_node_def asc_def)
  have san: "sanitize_stage (Arr [?v]) = [?v]"
    by (simp add: sanitize_stage_def is_object_def)
  have keep: "filter (keep_node rt ?cfg) [?v] = [?v]"
    by (simp add: keep_node_def default_config_def)
  have dd: "dedupe_stage rt ?cfg [?v] = [?v]"
    by (simp add: dedupe_stage_def default_config_def)
  have srt: "\<And>q. sort_stage rt ?cfg [q] = [q]"
    by (simp add: sort_stage_def default_config_def)
  have "pipeline rt ?cfg (Arr [?v])
      = [sample_node (asc ''ss'') (us_region @ asc '' - MySub - [SS] - US-LosAngeles-01'') (asc ''a'')]"
    unfolding pipeline_def san keep dd list.map q srt by (rule conflict_stage_single)
  with cfg show ?thesis
    by (simp add: operator_def bind_def)
qed

end
